theory Spec2Isabelle
  imports Main "HOL-Library.Word"
begin

text \<open>
  A shallow embedding of the agent examples: the network agent (its tools, the research
  and writing agents, the city workflow and the routing loop), the handler of the day
  planner, and \<open>getWeather\<close> of the weather agent. The language model, \<open>fetch\<close> and
  the built-in functions of JavaScript that the code calls are parameters; exceptions are
  values of a sum type; the \<open>while\<close> loop of the routing agent, which nothing bounds, is
  a partial function. The definitions come first, the properties after them.
\<close>

section \<open>JavaScript strings\<close>

text \<open>
  A JavaScript string is a sequence of UTF-16 code units; \<open>length\<close>, \<open>split\<close>,
  \<open>trim\<close> and \<open>===\<close> all work on code units. The model keeps that: a string is a
  list of 16-bit words. \<open>lit\<close> embeds an ASCII literal of the source.
\<close>

type_synonym jsstring = "16 word list"

definition lit :: "string \<Rightarrow> jsstring" where
  "lit s = map of_char s"

definition nl :: jsstring where
  "nl = [0x0A]"

text \<open>
  The characters matched by \<open>\s\<close> in a regular expression and removed by \<open>trim()\<close>:
  ECMAScript's WhiteSpace and LineTerminator code points (all in the basic plane).
\<close>

definition is_space :: "16 word \<Rightarrow> bool" where
  "is_space c \<longleftrightarrow>
     c \<in> {0x09, 0x0A, 0x0B, 0x0C, 0x0D, 0x20, 0xA0, 0x1680, 0x2028, 0x2029,
           0x202F, 0x205F, 0x3000, 0xFEFF}
     \<or> (0x2000 \<le> c \<and> c \<le> 0x200A)"

abbreviation non_space :: "16 word \<Rightarrow> bool" where
  "non_space c \<equiv> \<not> is_space c"

text \<open>
  \<open>s.split(/\s+/)\<close>. The separator matches a maximal run of whitespace (the \<open>+\<close> is
  greedy), the text before each match is a piece, and the text after the last match is the
  last piece; a string with no match is returned whole, also when it is empty (the pattern
  does not match the empty string). A match at the very start or the very end leaves an
  empty piece there.
\<close>

function split_ws :: "jsstring \<Rightarrow> jsstring list" where
  "split_ws s =
     (case dropWhile non_space s of
        [] \<Rightarrow> [s]
      | r # rs \<Rightarrow> takeWhile non_space s # split_ws (dropWhile is_space rs))"
  by pat_completeness auto
termination
proof (relation "measure length")
  show "wf (measure (length :: jsstring \<Rightarrow> nat))" by simp
next
  fix s :: jsstring and r rs
  assume d: "dropWhile non_space s = r # rs"
  have "length (dropWhile is_space rs) \<le> length rs"
    by (rule length_dropWhile_le)
  moreover have "length (dropWhile non_space s) \<le> length s"
    by (rule length_dropWhile_le)
  ultimately show "(dropWhile is_space rs, s) \<in> measure length"
    using d by simp
qed

declare split_ws.simps [simp del]

text \<open>
  The spec's notion, for comparison: the whitespace-delimited tokens of a string are its
  maximal runs of non-whitespace characters.
\<close>

function tokens :: "jsstring \<Rightarrow> jsstring list" where
  "tokens s =
     (case dropWhile is_space s of
        [] \<Rightarrow> []
      | c # cs \<Rightarrow> (c # takeWhile non_space cs) # tokens (dropWhile non_space cs))"
  by pat_completeness auto
termination
proof (relation "measure length")
  show "wf (measure (length :: jsstring \<Rightarrow> nat))" by simp
next
  fix s :: jsstring and c cs
  assume d: "dropWhile is_space s = c # cs"
  have "length (dropWhile non_space cs) \<le> length cs"
    by (rule length_dropWhile_le)
  moreover have "length (dropWhile is_space s) \<le> length s"
    by (rule length_dropWhile_le)
  ultimately show "(dropWhile non_space cs, s) \<in> measure length"
    using d by simp
qed

declare tokens.simps [simp del]

text \<open>\<open>xs.join(sep)\<close> on an array of strings.\<close>

fun join :: "jsstring \<Rightarrow> jsstring list \<Rightarrow> jsstring" where
  "join sep [] = []"
| "join sep [x] = x"
| "join sep (x # y # ys) = x @ sep @ join sep (y # ys)"

section \<open>Errors and the chat completion client\<close>

text \<open>
  Every exception of the source is a value: the SyntaxError of \<open>JSON.parse\<close>, the
  TypeError of a property read from \<open>null\<close> or \<open>undefined\<close> (or of a call of something
  that is not a function), the URIError of \<open>encodeURIComponent\<close>, a rejected \<open>fetch\<close>
  or body read, a failed chat completion, and the error with which \<open>agent.run\<close> rejects
  an input that does not match the agent's input schema.
\<close>

datatype error =
    SyntaxError
  | TypeError
  | URIError
  | FetchError
  | ClientError
  | ValidationError

datatype role = System | User | Assistant | Tool

datatype tool_call =
    FunctionCall (call_id: jsstring) (fn_name: jsstring) (fn_arguments: jsstring)
  | CustomCall (call_id: jsstring) (custom_name: jsstring) (custom_input: jsstring)

record message =
  msg_role :: role
  msg_content :: "jsstring option"
  msg_tool_calls :: "tool_call list option"
  msg_tool_call_id :: "jsstring option"

record assistant_message =
  am_content :: "jsstring option"
  am_tool_calls :: "tool_call list option"

datatype model_name = Gpt5Nano | Gpt5Mini | Gpt5

record chat_request =
  req_model :: model_name
  req_messages :: "message list"
  req_tools :: bool

text \<open>
  \<open>client.chat.completions.create\<close> is the external language model. It is a parameter of
  every function that calls it: from the state of the outside world and the request it
  either fails or returns \<open>completion.choices[0]?.message\<close> (\<open>None\<close> when there is no
  choice) and the next state of the world. Nothing is assumed about it.
\<close>

type_synonym 'w chat = "'w \<Rightarrow> chat_request \<Rightarrow> error + (assistant_message option \<times> 'w)"

definition user_message :: "jsstring \<Rightarrow> message" where
  "user_message c =
     \<lparr>msg_role = User, msg_content = Some c, msg_tool_calls = None, msg_tool_call_id = None\<rparr>"

text \<open>\<open>completion.choices[0]?.message?.content ?? ''\<close>\<close>

definition content_or_empty :: "assistant_message option \<Rightarrow> jsstring" where
  "content_or_empty m =
     (case m of None \<Rightarrow> [] | Some a \<Rightarrow> (case am_content a of None \<Rightarrow> [] | Some c \<Rightarrow> c))"

record agent_ctx =
  ctx_sessionId :: jsstring
  ctx_threadId :: jsstring

section \<open>Writing agent\<close>

datatype style = Blog | Article | Summary | Report

fun style_str :: "style \<Rightarrow> jsstring" where
  "style_str Blog = lit ''blog''"
| "style_str Article = lit ''article''"
| "style_str Summary = lit ''summary''"
| "style_str Report = lit ''report''"

record writing_input =
  wi_topic :: jsstring
  wi_insights :: "jsstring list"
  wi_style :: "style option"
  wi_model :: "model_name option"

record writing_output =
  wo_topic :: jsstring
  wo_content :: jsstring
  wo_wordCount :: nat
  wo_sessionId :: jsstring
  wo_threadId :: jsstring

definition writing_prompt :: "style \<Rightarrow> jsstring \<Rightarrow> jsstring list \<Rightarrow> jsstring" where
  "writing_prompt sty topic insights =
     lit ''You are a professional writer. Transform the following research insights into a well-structured ''
     @ style_str sty @ lit ''.'' @ nl @ nl
     @ lit ''Topic: '' @ topic @ nl @ nl
     @ lit ''Research Insights:'' @ nl
     @ join nl (map (\<lambda>i. lit ''- '' @ i) insights) @ nl @ nl
     @ lit ''Instructions:'' @ nl
     @ lit ''- Write in full paragraphs, no bullet points'' @ nl
     @ lit ''- Create a cohesive narrative that flows naturally'' @ nl
     @ lit ''- Include all the key insights in your writing'' @ nl
     @ lit ''- Write in an engaging, informative style'' @ nl
     @ lit ''- Target 200-400 words'' @ nl @ nl
     @ lit ''Write the '' @ style_str sty @ lit '':''"

text \<open>\<open>content.split(/\s+/).length\<close>\<close>

definition word_count :: "jsstring \<Rightarrow> nat" where
  "word_count content = length (split_ws content)"

text \<open>
  The handler of the writing agent. The defaults of the destructured parameters are
  \<open>style = 'blog'\<close> and \<open>model = 'gpt-5-mini'\<close>. Logging has no effect on the result and
  is left out, here and below. \<open>writing.run\<close> is this handler behind the runtime's schema
  validation, which accepts every well-typed input.
\<close>

definition writing_run ::
  "'w chat \<Rightarrow> agent_ctx \<Rightarrow> 'w \<Rightarrow> writing_input \<Rightarrow> error + (writing_output \<times> 'w)" where
  "writing_run client ctx w inp =
     (let sty = (case wi_style inp of None \<Rightarrow> Blog | Some s \<Rightarrow> s);
          model = (case wi_model inp of None \<Rightarrow> Gpt5Mini | Some m \<Rightarrow> m);
          prompt = writing_prompt sty (wi_topic inp) (wi_insights inp)
      in case client w \<lparr>req_model = model, req_messages = [user_message prompt],
                        req_tools = False\<rparr> of
           Inl e \<Rightarrow> Inl e
         | Inr (m, w') \<Rightarrow>
             (let content = content_or_empty m
              in Inr (\<lparr>wo_topic = wi_topic inp, wo_content = content,
                       wo_wordCount = word_count content,
                       wo_sessionId = ctx_sessionId ctx, wo_threadId = ctx_threadId ctx\<rparr>,
                      w')))"


section \<open>JSON values\<close>

text \<open>
  The values \<open>JSON.parse\<close> and \<open>response.json()\<close> produce. A number is represented
  by the string JavaScript's \<open>ToString\<close> gives for it (\<open>3\<close>, \<open>21.5\<close>, \<open>1e+21\<close>),
  which determines the number up to the sign of zero; nothing below computes with a parsed
  number, it is only printed or used as a property key. An object is the list of its own
  properties, each key once. \<open>None\<close> of type \<open>json option\<close> is \<open>undefined\<close>.
\<close>

datatype json =
    JNull
  | JBool bool
  | JNum jsstring
  | JStr jsstring
  | JArr "json list"
  | JObj "(jsstring \<times> json) list"

text \<open>
  \<open>v.name\<close> for a property name that is neither an index, nor \<open>length\<close>, nor a member
  of a prototype (\<open>location\<close>, \<open>topic\<close>, \<open>plan\<close>, \<open>activities\<close>, \<open>results\<close>, ...): reading
  it from \<open>null\<close> or \<open>undefined\<close> throws a TypeError, an object gives its own property or
  \<open>undefined\<close>, every other value gives \<open>undefined\<close>.
\<close>

fun get_field :: "json option \<Rightarrow> jsstring \<Rightarrow> error + json option" where
  "get_field None k = Inl TypeError"
| "get_field (Some JNull) k = Inl TypeError"
| "get_field (Some (JObj kvs)) k = Inr (map_of kvs k)"
| "get_field (Some v) k = Inr None"

text \<open>JavaScript's truthiness; the number zero prints as \<open>0\<close>, and JSON has no NaN.\<close>

fun truthy :: "json option \<Rightarrow> bool" where
  "truthy None = False"
| "truthy (Some JNull) = False"
| "truthy (Some (JBool b)) = b"
| "truthy (Some (JNum n)) = (n \<noteq> lit ''0'')"
| "truthy (Some (JStr s)) = (s \<noteq> [])"
| "truthy (Some v) = True"

text \<open>
  \<open>ToString\<close>, as a template literal applies it. An array prints its elements joined by
  commas, \<open>null\<close> elements as the empty string. An object prints as \<open>[object Object]\<close>
  through the inherited \<open>toString\<close>; an own property \<open>toString\<close> hides that method, its
  JSON value is not callable, the inherited \<open>valueOf\<close> returns the object itself, and the
  conversion throws a TypeError.
\<close>

fun sequence :: "(error + 'a) list \<Rightarrow> error + 'a list" where
  "sequence [] = Inr []"
| "sequence (x # xs) =
     (case x of
        Inl e \<Rightarrow> Inl e
      | Inr v \<Rightarrow> (case sequence xs of Inl e \<Rightarrow> Inl e | Inr vs \<Rightarrow> Inr (v # vs)))"

fun to_string :: "json \<Rightarrow> error + jsstring" where
  "to_string JNull = Inr (lit ''null'')"
| "to_string (JBool b) = Inr (if b then lit ''true'' else lit ''false'')"
| "to_string (JNum n) = Inr n"
| "to_string (JStr s) = Inr s"
| "to_string (JArr xs) =
     (case sequence (map (\<lambda>x. if x = JNull then Inr [] else to_string x) xs) of
        Inl e \<Rightarrow> Inl e
      | Inr ss \<Rightarrow> Inr (join (lit '','') ss))"
| "to_string (JObj kvs) =
     (if map_of kvs (lit ''toString'') \<noteq> None then Inl TypeError
      else Inr (lit ''[object Object]''))"

definition to_string_opt :: "json option \<Rightarrow> error + jsstring" where
  "to_string_opt v = (case v of None \<Rightarrow> Inr (lit ''undefined'') | Some j \<Rightarrow> to_string j)"

section \<open>The environment\<close>

record http_response =
  resp_ok :: bool
  resp_body :: "jsstring option"

text \<open>
  What the code calls and does not define. \<open>env_chat\<close> is the chat completion client and
  \<open>env_fetch\<close> is \<open>fetch\<close>: either may fail (a rejected promise), and both may depend on
  and change the outside world \<open>'w\<close>. A failed \<open>fetch\<close> returns the world as well, since
  the weather agent catches the failure and goes on. A response carries \<open>ok\<close> and its
  body, \<open>None\<close> when reading the body fails. \<open>env_parse\<close> is \<open>JSON.parse\<close> (\<open>None\<close> is its SyntaxError),
  \<open>env_encode\<close> is \<open>encodeURIComponent\<close> (\<open>None\<close> is its URIError, on a lone
  surrogate), and \<open>env_inherited k\<close> is the text that \<open>`${o[k]}`\<close> prints for a member
  \<open>k\<close> that an object literal \<open>o\<close> inherits from \<open>Object.prototype\<close>, if there is one.
\<close>

record 'w env =
  env_chat :: "'w chat"
  env_fetch :: "'w \<Rightarrow> jsstring \<Rightarrow> (error + http_response) \<times> 'w"
  env_parse :: "jsstring \<Rightarrow> json option"
  env_encode :: "jsstring \<Rightarrow> jsstring option"
  env_inherited :: "jsstring \<Rightarrow> jsstring option"

text \<open>\<open>await response.text()\<close> and \<open>await response.json()\<close>\<close>

definition response_text :: "http_response \<Rightarrow> error + jsstring" where
  "response_text r = (case resp_body r of None \<Rightarrow> Inl FetchError | Some b \<Rightarrow> Inr b)"

definition response_json :: "'w env \<Rightarrow> http_response \<Rightarrow> error + json" where
  "response_json E r =
     (case resp_body r of
        None \<Rightarrow> Inl FetchError
      | Some b \<Rightarrow> (case env_parse E b of None \<Rightarrow> Inl SyntaxError | Some j \<Rightarrow> Inr j))"

text \<open>\<open>encodeURIComponent(v)\<close> converts its argument to a string first.\<close>

definition encodeURIComponent :: "'w env \<Rightarrow> json option \<Rightarrow> error + jsstring" where
  "encodeURIComponent E v =
     (case to_string_opt v of
        Inl e \<Rightarrow> Inl e
      | Inr s \<Rightarrow> (case env_encode E s of None \<Rightarrow> Inl URIError | Some u \<Rightarrow> Inr u))"

text \<open>\<open>s.trim()\<close>\<close>

definition trim :: "jsstring \<Rightarrow> jsstring" where
  "trim s = rev (dropWhile is_space (rev (dropWhile is_space s)))"

section \<open>Network agent: the weather tool\<close>

text \<open>
  \<open>getWeather\<close> of \<open>network/tools.ts\<close>. The parameter is declared a string and the
  caller passes \<open>args.location as string\<close>, an unchecked cast, so the value is whatever
  the model's JSON holds. The function has no \<open>try\<close>: a failure of \<open>fetch\<close> or of
  reading the body is its failure.
\<close>

record weather_result =
  wr_location :: "json option"
  wr_weather :: jsstring

definition wttr_url :: "jsstring \<Rightarrow> jsstring" where
  "wttr_url enc = lit ''https://wttr.in/'' @ enc @ lit ''?format=%C+%t+%h+%w''"

definition getWeather ::
  "'w env \<Rightarrow> 'w \<Rightarrow> json option \<Rightarrow> error + (weather_result \<times> 'w)" where
  "getWeather E w location =
     (case encodeURIComponent E location of
        Inl e \<Rightarrow> Inl e
      | Inr enc \<Rightarrow>
          (let url = wttr_url enc
           in case env_fetch E w url of
                (Inl e, w') \<Rightarrow> Inl e
              | (Inr response, w') \<Rightarrow>
                  (case response_text response of
                     Inl e \<Rightarrow> Inl e
                   | Inr weather \<Rightarrow>
                       Inr (\<lparr>wr_location = location, wr_weather = trim weather\<rparr>, w'))))"


section \<open>Research agent\<close>

text \<open>\<open>s.split('\n')\<close>: the pieces between the separators; a string without one is whole.\<close>

function split_on :: "16 word \<Rightarrow> jsstring \<Rightarrow> jsstring list" where
  "split_on c s =
     (case dropWhile (\<lambda>x. x \<noteq> c) s of
        [] \<Rightarrow> [s]
      | r # rs \<Rightarrow> takeWhile (\<lambda>x. x \<noteq> c) s # split_on c rs)"
  by pat_completeness auto
termination
proof (relation "measure (\<lambda>(c, s). length s)")
  show "wf (measure (\<lambda>(c :: 16 word, s :: jsstring). length s))" by simp
next
  fix c :: "16 word" and s :: jsstring and r rs
  assume d: "dropWhile (\<lambda>x. x \<noteq> c) s = r # rs"
  have "length (dropWhile (\<lambda>x. x \<noteq> c) s) \<le> length s"
    by (rule length_dropWhile_le)
  then show "((c, rs), (c, s)) \<in> measure (\<lambda>(c, s). length s)"
    using d by simp
qed

declare split_on.simps [simp del]

text \<open>
  \<open>line.replace(/^[-\<bullet>*]\s*/, '')\<close>: a leading hyphen, bullet (U+2022) or asterisk is
  removed together with the whitespace after it.
\<close>

definition strip_bullet :: "jsstring \<Rightarrow> jsstring" where
  "strip_bullet line =
     (case line of
        [] \<Rightarrow> []
      | c # cs \<Rightarrow> if c \<in> {0x2D, 0x2022, 0x2A} then dropWhile is_space cs else line)"

definition parse_insights :: "jsstring \<Rightarrow> jsstring list" where
  "parse_insights content =
     filter (\<lambda>line. length line > 0) (map (\<lambda>line. trim (strip_bullet line)) (split_on 0x0A content))"

record research_input =
  ri_topic :: jsstring
  ri_model :: "model_name option"

record research_output =
  ro_topic :: jsstring
  ro_insights :: "jsstring list"
  ro_sessionId :: jsstring
  ro_threadId :: jsstring

definition research_prompt :: "jsstring \<Rightarrow> jsstring" where
  "research_prompt topic =
     lit ''You are a research assistant. Research the following topic and provide key insights as bullet points.'' @ nl
     @ lit ''Be concise and factual. Focus on extracting the most important and interesting facts.'' @ nl
     @ lit ''Do not write full paragraphs - only bullet points.'' @ nl @ nl
     @ lit ''Topic: '' @ topic @ nl @ nl
     @ lit ''Provide 5-7 key bullet points:''"

definition research_run ::
  "'w chat \<Rightarrow> agent_ctx \<Rightarrow> 'w \<Rightarrow> research_input \<Rightarrow> error + (research_output \<times> 'w)" where
  "research_run client ctx w inp =
     (let model = (case ri_model inp of None \<Rightarrow> Gpt5Mini | Some m \<Rightarrow> m);
          prompt = research_prompt (ri_topic inp)
      in case client w \<lparr>req_model = model, req_messages = [user_message prompt],
                        req_tools = False\<rparr> of
           Inl e \<Rightarrow> Inl e
         | Inr (m, w') \<Rightarrow>
             Inr (\<lparr>ro_topic = ri_topic inp, ro_insights = parse_insights (content_or_empty m),
                   ro_sessionId = ctx_sessionId ctx, ro_threadId = ctx_threadId ctx\<rparr>,
                  w'))"

section \<open>Schema validation at \<open>agent.run\<close>\<close>

text \<open>
  \<open>research.run\<close> and \<open>writing.run\<close> are the handlers above behind the runtime's
  validation of the input against the agent's schema (\<open>s.string()\<close>,
  \<open>s.array(s.string())\<close>, \<open>s.enum([...]).optional()\<close>). The callers below build the
  input from JSON values behind unchecked casts, so a value of another type reaches
  \<open>run\<close> and is rejected there.
\<close>

definition validate_string :: "json option \<Rightarrow> error + jsstring" where
  "validate_string v = (case v of Some (JStr s) \<Rightarrow> Inr s | _ \<Rightarrow> Inl ValidationError)"

definition validate_strings :: "json option \<Rightarrow> error + jsstring list" where
  "validate_strings v =
     (case v of
        Some (JArr xs) \<Rightarrow> sequence (map (\<lambda>x. validate_string (Some x)) xs)
      | _ \<Rightarrow> Inl ValidationError)"

definition validate_style :: "json option \<Rightarrow> error + style option" where
  "validate_style v =
     (case v of
        None \<Rightarrow> Inr None
      | Some (JStr s) \<Rightarrow>
          (if s = lit ''blog'' then Inr (Some Blog)
           else if s = lit ''article'' then Inr (Some Article)
           else if s = lit ''summary'' then Inr (Some Summary)
           else if s = lit ''report'' then Inr (Some Report)
           else Inl ValidationError)
      | _ \<Rightarrow> Inl ValidationError)"

section \<open>City workflow\<close>

text \<open>
  \<open>cityWorkflow\<close> of \<open>network/workflows.ts\<close>. \<open>input.city\<close> is declared a string; the
  caller passes \<open>args.city as string\<close>, so the model takes the JSON value. The topic of
  the research step is a template literal, a string whatever the city is; the topic of
  the writing step is the city itself.
\<close>

record city_output =
  co_city :: "json option"
  co_insights :: "jsstring list"
  co_content :: jsstring
  co_wordCount :: nat

definition city_suffix :: jsstring where
  "city_suffix = lit '' - history, culture, landmarks, and interesting facts''"

definition cityWorkflow ::
  "'w env \<Rightarrow> agent_ctx \<Rightarrow> 'w \<Rightarrow> json option \<Rightarrow> error + (city_output \<times> 'w)" where
  "cityWorkflow E ctx w city =
     (case to_string_opt city of
        Inl e \<Rightarrow> Inl e
      | Inr c \<Rightarrow>
          (case research_run (env_chat E) ctx w
                  \<lparr>ri_topic = c @ city_suffix, ri_model = None\<rparr> of
             Inl e \<Rightarrow> Inl e
           | Inr (researchResult, w1) \<Rightarrow>
               (case validate_string city of
                  Inl e \<Rightarrow> Inl e
                | Inr topic \<Rightarrow>
                    (case writing_run (env_chat E) ctx w1
                            \<lparr>wi_topic = topic, wi_insights = ro_insights researchResult,
                             wi_style = Some Report, wi_model = None\<rparr> of
                       Inl e \<Rightarrow> Inl e
                     | Inr (writingResult, w2) \<Rightarrow>
                         Inr (\<lparr>co_city = city,
                               co_insights = ro_insights researchResult,
                               co_content = wo_content writingResult,
                               co_wordCount = wo_wordCount writingResult\<rparr>, w2)))))"

section \<open>Network agent: events and tool execution\<close>

text \<open>
  An event is its type and payload; the timestamp, read from the clock, is left out. The
  payload of \<open>network-step-finish\<close> is the array \<open>executedPrimitives\<close> itself, not a
  copy of it, which \<open>PExecutedPrimitives\<close> stands for.
\<close>

datatype event_type =
    NetworkStart
  | RoutingAgentStart
  | RoutingAgentEnd
  | AgentExecutionStart
  | AgentExecutionEnd
  | ToolExecutionStart
  | ToolExecutionEnd
  | WorkflowExecutionStart
  | WorkflowExecutionEnd
  | NetworkStepFinish
  | NetworkComplete

datatype payload =
    NoPayload
  | PMessage jsstring
  | PToolArgs jsstring json
  | PAgent jsstring
  | PWorkflow jsstring
  | PToolResult jsstring jsstring
  | PExecutedPrimitives
  | PResponse jsstring

record event =
  ev_type :: event_type
  ev_payload :: payload

definition createEvent :: "event_type \<Rightarrow> payload \<Rightarrow> event" where
  "createEvent ty p = \<lparr>ev_type = ty, ev_payload = p\<rparr>"

text \<open>
  \<open>`Research on "${topic}":\n${insights.map((i) => `\<bullet> ${i}`).join('\n')}`\<close>
\<close>

definition research_summary :: "research_output \<Rightarrow> jsstring" where
  "research_summary r =
     lit ''Research on '' @ [0x22] @ ro_topic r @ [0x22] @ lit '':'' @ nl
     @ join nl (map (\<lambda>i. [0x2022, 0x20] @ i) (ro_insights r))"

text \<open>
  The \<open>switch\<close> of \<open>executeTool\<close>: the result string of one tool, the events pushed
  while it ran, and the world after it. \<open>(args.style as ...) || 'blog'\<close> replaces every
  falsy style by \<open>'blog'\<close>.
\<close>

definition tool_switch ::
  "'w env \<Rightarrow> agent_ctx \<Rightarrow> jsstring \<Rightarrow> json \<Rightarrow> event list \<Rightarrow> 'w
     \<Rightarrow> error + (jsstring \<times> event list \<times> 'w)" where
  "tool_switch E ctx toolName args events w =
     (if toolName = lit ''get_weather'' then
        (case get_field (Some args) (lit ''location'') of
           Inl e \<Rightarrow> Inl e
         | Inr location \<Rightarrow>
             (case getWeather E w location of
                Inl e \<Rightarrow> Inl e
              | Inr (weather, w') \<Rightarrow>
                  (case to_string_opt (wr_location weather) of
                     Inl e \<Rightarrow> Inl e
                   | Inr loc \<Rightarrow>
                       Inr (lit ''Weather in '' @ loc @ lit '': '' @ wr_weather weather,
                            events, w'))))
      else if toolName = lit ''research_topic'' then
        (let events1 = events @ [createEvent AgentExecutionStart (PAgent (lit ''research''))]
         in case get_field (Some args) (lit ''topic'') of
              Inl e \<Rightarrow> Inl e
            | Inr topic \<Rightarrow>
                (case validate_string topic of
                   Inl e \<Rightarrow> Inl e
                 | Inr t \<Rightarrow>
                     (case research_run (env_chat E) ctx w
                             \<lparr>ri_topic = t, ri_model = None\<rparr> of
                        Inl e \<Rightarrow> Inl e
                      | Inr (researchResult, w') \<Rightarrow>
                          Inr (research_summary researchResult,
                               events1 @ [createEvent AgentExecutionEnd (PAgent (lit ''research''))],
                               w'))))
      else if toolName = lit ''write_content'' then
        (let events1 = events @ [createEvent AgentExecutionStart (PAgent (lit ''writing''))]
         in case get_field (Some args) (lit ''topic'') of
              Inl e \<Rightarrow> Inl e
            | Inr topic \<Rightarrow>
                (case get_field (Some args) (lit ''insights'') of
                   Inl e \<Rightarrow> Inl e
                 | Inr insights \<Rightarrow>
                     (case get_field (Some args) (lit ''style'') of
                        Inl e \<Rightarrow> Inl e
                      | Inr sty \<Rightarrow>
                          (case validate_string topic of
                             Inl e \<Rightarrow> Inl e
                           | Inr t \<Rightarrow>
                               (case validate_strings insights of
                                  Inl e \<Rightarrow> Inl e
                                | Inr ins \<Rightarrow>
                                    (case validate_style
                                            (if truthy sty then sty
                                             else Some (JStr (lit ''blog''))) of
                                       Inl e \<Rightarrow> Inl e
                                     | Inr s \<Rightarrow>
                                         (case writing_run (env_chat E) ctx w
                                                 \<lparr>wi_topic = t, wi_insights = ins,
                                                  wi_style = s, wi_model = None\<rparr> of
                                            Inl e \<Rightarrow> Inl e
                                          | Inr (writeResult, w') \<Rightarrow>
                                              Inr (wo_content writeResult,
                                                   events1 @ [createEvent AgentExecutionEnd
                                                                (PAgent (lit ''writing''))],
                                                   w'))))))))
      else if toolName = lit ''city_research'' then
        (let events1 = events @ [createEvent WorkflowExecutionStart (PWorkflow (lit ''city''))]
         in case get_field (Some args) (lit ''city'') of
              Inl e \<Rightarrow> Inl e
            | Inr city \<Rightarrow>
                (case cityWorkflow E ctx w city of
                   Inl e \<Rightarrow> Inl e
                 | Inr (cityResult, w') \<Rightarrow>
                     Inr (co_content cityResult,
                          events1 @ [createEvent WorkflowExecutionEnd (PWorkflow (lit ''city''))],
                          w')))
      else Inr (lit ''Unknown tool: '' @ toolName, events, w))"

text \<open>\<open>executeTool\<close>: the \<open>tool-execution-start\<close> event, the switch, the
  \<open>tool-execution-end\<close> event with the first 200 code units of the result.\<close>

definition executeTool ::
  "'w env \<Rightarrow> agent_ctx \<Rightarrow> jsstring \<Rightarrow> json \<Rightarrow> event list \<Rightarrow> 'w
     \<Rightarrow> error + (jsstring \<times> event list \<times> 'w)" where
  "executeTool E ctx toolName args events w =
     (case tool_switch E ctx toolName args
             (events @ [createEvent ToolExecutionStart (PToolArgs toolName args)]) w of
        Inl e \<Rightarrow> Inl e
      | Inr (result, events', w') \<Rightarrow>
          Inr (result,
               events' @ [createEvent ToolExecutionEnd (PToolResult toolName (take 200 result))],
               w'))"


section \<open>Network agent: the routing loop\<close>

definition tool_message :: "jsstring \<Rightarrow> jsstring \<Rightarrow> message" where
  "tool_message tcid result =
     \<lparr>msg_role = Tool, msg_content = Some result, msg_tool_calls = None,
      msg_tool_call_id = Some tcid\<rparr>"

text \<open>
  The \<open>for\<close> loop over \<open>assistantMessage.tool_calls\<close>, with the variables it updates:
  \<open>toolResults\<close>, \<open>executedPrimitives\<close>, \<open>events\<close> and the world. A tool call whose
  type is not \<open>function\<close> is skipped (\<open>continue\<close>). \<open>JSON.parse\<close> of the arguments and
  \<open>executeTool\<close> are not inside any \<open>try\<close>: their exception ends the loop.
\<close>

record 'w batch =
  b_results :: "message list"
  b_executed :: "jsstring list"
  b_events :: "event list"
  b_world :: 'w

fun run_tool_calls ::
  "'w env \<Rightarrow> agent_ctx \<Rightarrow> tool_call list \<Rightarrow> 'w batch \<Rightarrow> error + 'w batch" where
  "run_tool_calls E ctx [] b = Inr b"
| "run_tool_calls E ctx (CustomCall tcid name inp # tcs) b = run_tool_calls E ctx tcs b"
| "run_tool_calls E ctx (FunctionCall tcid toolName arguments # tcs) b =
     (case env_parse E arguments of
        None \<Rightarrow> Inl SyntaxError
      | Some args \<Rightarrow>
          (case executeTool E ctx toolName args (b_events b) (b_world b) of
             Inl e \<Rightarrow> Inl e
           | Inr (result, events', w') \<Rightarrow>
               run_tool_calls E ctx tcs
                 \<lparr>b_results = b_results b @ [tool_message tcid result],
                  b_executed = b_executed b @ [toolName],
                  b_events = events',
                  b_world = w'\<rparr>))"

text \<open>The variables of the \<open>while\<close> loop.\<close>

record 'w loop_state =
  ls_messages :: "message list"
  ls_assistant :: "assistant_message option"
  ls_response :: jsstring
  ls_events :: "event list"
  ls_executed :: "jsstring list"
  ls_world :: 'w

text \<open>\<open>assistantMessage?.content || response\<close>: a missing, null or empty content is falsy.\<close>

definition content_or :: "assistant_message option \<Rightarrow> jsstring \<Rightarrow> jsstring" where
  "content_or m response =
     (case m of
        None \<Rightarrow> response
      | Some a \<Rightarrow>
          (case am_content a of
             None \<Rightarrow> response
           | Some c \<Rightarrow> if c = [] then response else c))"

definition assistant_turn :: "assistant_message \<Rightarrow> message" where
  "assistant_turn a =
     \<lparr>msg_role = Assistant, msg_content = am_content a, msg_tool_calls = am_tool_calls a,
      msg_tool_call_id = None\<rparr>"

text \<open>
  One pass through the body of the \<open>while\<close> loop, for the assistant message and the
  tool calls that the condition has found.
\<close>

definition loop_body ::
  "'w env \<Rightarrow> agent_ctx \<Rightarrow> model_name \<Rightarrow> 'w loop_state \<Rightarrow> assistant_message
     \<Rightarrow> tool_call list \<Rightarrow> error + 'w loop_state" where
  "loop_body E ctx model st assistantMessage tool_calls =
     (case run_tool_calls E ctx tool_calls
             \<lparr>b_results = [], b_executed = ls_executed st, b_events = ls_events st,
              b_world = ls_world st\<rparr> of
        Inl e \<Rightarrow> Inl e
      | Inr b \<Rightarrow>
          (let events1 = b_events b @ [createEvent NetworkStepFinish PExecutedPrimitives];
               messages = ls_messages st @ [assistant_turn assistantMessage] @ b_results b;
               events2 = events1 @ [createEvent RoutingAgentStart NoPayload]
           in case env_chat E (b_world b)
                     \<lparr>req_model = model, req_messages = messages, req_tools = True\<rparr> of
                Inl e \<Rightarrow> Inl e
              | Inr (next, w') \<Rightarrow>
                  Inr \<lparr>ls_messages = messages,
                       ls_assistant = next,
                       ls_response = content_or next (ls_response st),
                       ls_events = events2 @ [createEvent RoutingAgentEnd NoPayload],
                       ls_executed = b_executed b,
                       ls_world = w'\<rparr>))"

text \<open>
  The \<open>while\<close> loop, with its condition
  \<open>assistantMessage?.tool_calls && assistantMessage.tool_calls.length > 0\<close>. Nothing
  bounds the number of passes: a model that keeps asking for tools keeps it running, and
  then the value is \<open>None\<close>.
\<close>

partial_function (option) network_loop ::
  "'w env \<Rightarrow> agent_ctx \<Rightarrow> model_name \<Rightarrow> 'w loop_state \<Rightarrow> (error + 'w loop_state) option" where
  "network_loop E ctx model st =
     (case ls_assistant st of
        None \<Rightarrow> Some (Inr st)
      | Some assistantMessage \<Rightarrow>
          (case am_tool_calls assistantMessage of
             None \<Rightarrow> Some (Inr st)
           | Some tool_calls \<Rightarrow>
               if length tool_calls > 0 then
                 (case loop_body E ctx model st assistantMessage tool_calls of
                    Inl e \<Rightarrow> Some (Inl e)
                  | Inr st' \<Rightarrow> network_loop E ctx model st')
               else Some (Inr st)))"

record hist_entry =
  h_role :: role
  h_content :: jsstring

record network_input =
  ni_message :: jsstring
  ni_model :: "model_name option"

record network_output =
  no_message :: jsstring
  no_response :: jsstring
  no_events :: "event list"
  no_executedPrimitives :: "jsstring list"
  no_sessionId :: jsstring
  no_threadId :: jsstring

definition systemPrompt :: jsstring where
  "systemPrompt =
     lit ''You are a network of writers and researchers.'' @ nl
     @ lit ''The user will ask you to research topics, get weather, or learn about cities.'' @ nl
     @ lit ''Always respond with complete, helpful information.'' @ nl
     @ lit ''Write in full paragraphs, like a blog post when appropriate.'' @ nl
     @ lit ''Do not answer with incomplete or uncertain information.'' @ nl @ nl
     @ lit ''You have access to the following tools:'' @ nl
     @ lit ''1. get_weather - Get current weather for any location'' @ nl
     @ lit ''2. research_topic - Gather research insights about any topic'' @ nl
     @ lit ''3. write_content - Turn research insights into well-written content'' @ nl
     @ lit ''4. city_research - Get comprehensive information about a city (research + written report)'' @ nl @ nl
     @ lit ''For complex tasks:'' @ nl
     @ lit ''- If the user wants a written report, first use research_topic, then use write_content'' @ nl
     @ lit ''- If the user asks about a specific city, consider using city_research for a complete report'' @ nl
     @ lit ''- For simple weather questions, just use get_weather'' @ nl @ nl
     @ lit ''Always use tools when appropriate rather than making up information.''"

definition history_message :: "hist_entry \<Rightarrow> message" where
  "history_message h =
     \<lparr>msg_role = h_role h, msg_content = Some (h_content h), msg_tool_calls = None,
      msg_tool_call_id = None\<rparr>"

definition initial_messages :: "hist_entry list \<Rightarrow> jsstring \<Rightarrow> message list" where
  "initial_messages history message =
     \<lparr>msg_role = System, msg_content = Some systemPrompt, msg_tool_calls = None,
      msg_tool_call_id = None\<rparr>
     # map history_message history @ [user_message message]"

text \<open>\<open>xs.slice(-n)\<close>: the last \<open>n\<close> elements, all of them when there are fewer.\<close>

definition slice_last :: "nat \<Rightarrow> 'a list \<Rightarrow> 'a list" where
  "slice_last n xs = drop (length xs - n) xs"

text \<open>The first request: the system prompt, the stored history, the new user message.\<close>

definition first_request :: "hist_entry list \<Rightarrow> network_input \<Rightarrow> chat_request" where
  "first_request history inp =
     \<lparr>req_model = (case ni_model inp of None \<Rightarrow> Gpt5Mini | Some m \<Rightarrow> m),
      req_messages = initial_messages history (ni_message inp),
      req_tools = True\<rparr>"

text \<open>
  The variables when the \<open>while\<close> loop is reached:
  \<open>response = assistantMessage?.content || ''\<close>, three events pushed, no tool run.
\<close>

definition initial_state ::
  "hist_entry list \<Rightarrow> network_input \<Rightarrow> assistant_message option \<Rightarrow> 'w \<Rightarrow> 'w loop_state" where
  "initial_state history inp first w1 =
     \<lparr>ls_messages = initial_messages history (ni_message inp),
      ls_assistant = first,
      ls_response = content_or first [],
      ls_events = [createEvent NetworkStart (PMessage (ni_message inp)),
                   createEvent RoutingAgentStart NoPayload,
                   createEvent RoutingAgentEnd NoPayload],
      ls_executed = [],
      ls_world = w1\<rparr>"

text \<open>
  The handler of the network agent. \<open>stored\<close> is the value of the thread state under
  the key \<open>conversation\<close> (\<open>None\<close> when the key is unset); the handler returns the
  output, the value it stores under that key, and the world. It returns nothing
  (\<open>None\<close>) when the loop does not end.
\<close>

definition network_handler ::
  "'w env \<Rightarrow> agent_ctx \<Rightarrow> 'w \<Rightarrow> hist_entry list option \<Rightarrow> network_input
     \<Rightarrow> (error + (network_output \<times> hist_entry list option \<times> 'w)) option" where
  "network_handler E ctx w stored inp =
     (let message = ni_message inp;
          history = (case stored of None \<Rightarrow> [] | Some h \<Rightarrow> h)
      in case env_chat E w (first_request history inp) of
           Inl e \<Rightarrow> Some (Inl e)
         | Inr (first, w1) \<Rightarrow>
             (case network_loop E ctx (req_model (first_request history inp))
                     (initial_state history inp first w1) of
                None \<Rightarrow> None
              | Some (Inl e) \<Rightarrow> Some (Inl e)
              | Some (Inr st) \<Rightarrow>
                  (let response = ls_response st;
                       history' = history
                         @ [\<lparr>h_role = User, h_content = message\<rparr>,
                            \<lparr>h_role = Assistant, h_content = response\<rparr>]
                   in Some (Inr (\<lparr>no_message = message,
                                  no_response = response,
                                  no_events = ls_events st
                                    @ [createEvent NetworkComplete (PResponse (take 200 response))],
                                  no_executedPrimitives = ls_executed st,
                                  no_sessionId = ctx_sessionId ctx,
                                  no_threadId = ctx_threadId ctx\<rparr>,
                                 Some (slice_last 20 history'),
                                 ls_world st)))))"

section \<open>Day planner agent\<close>

datatype plan_type = Work | Personal | Mixed

fun plan_type_str :: "plan_type \<Rightarrow> jsstring" where
  "plan_type_str Work = lit ''work''"
| "plan_type_str Personal = lit ''personal''"
| "plan_type_str Mixed = lit ''mixed''"

fun plan_focus :: "plan_type \<Rightarrow> jsstring" where
  "plan_focus Work = lit ''professional tasks''"
| "plan_focus Personal = lit ''personal activities''"
| "plan_focus Mixed = lit ''a mix of both''"

definition dq :: jsstring where
  "dq = [0x22]"

definition planner_prompt :: "plan_type \<Rightarrow> jsstring" where
  "planner_prompt planType =
     lit ''You are a day planning assistant. Create a structured daily plan based on the user''
     @ [0x27] @ lit ''s description.'' @ nl @ nl
     @ lit ''Return a JSON object with this exact structure:'' @ nl
     @ lit ''{'' @ nl
     @ lit ''  '' @ dq @ lit ''plan'' @ dq @ lit '': ['' @ nl
     @ lit ''    {'' @ nl
     @ lit ''      '' @ dq @ lit ''name'' @ dq @ lit '': '' @ dq @ lit ''Morning'' @ dq @ lit '','' @ nl
     @ lit ''      '' @ dq @ lit ''activities'' @ dq @ lit '': ['' @ nl
     @ lit ''        {'' @ nl
     @ lit ''          '' @ dq @ lit ''name'' @ dq @ lit '': '' @ dq @ lit ''Activity name'' @ dq @ lit '','' @ nl
     @ lit ''          '' @ dq @ lit ''startTime'' @ dq @ lit '': '' @ dq @ lit ''HH:MM'' @ dq @ lit '','' @ nl
     @ lit ''          '' @ dq @ lit ''endTime'' @ dq @ lit '': '' @ dq @ lit ''HH:MM'' @ dq @ lit '','' @ nl
     @ lit ''          '' @ dq @ lit ''description'' @ dq @ lit '': '' @ dq @ lit ''Brief description'' @ dq @ lit '','' @ nl
     @ lit ''          '' @ dq @ lit ''priority'' @ dq @ lit '': '' @ dq @ lit ''high'' @ dq @ lit '' | ''
         @ dq @ lit ''medium'' @ dq @ lit '' | '' @ dq @ lit ''low'' @ dq @ nl
     @ lit ''        }'' @ nl
     @ lit ''      ]'' @ nl
     @ lit ''    }'' @ nl
     @ lit ''  ],'' @ nl
     @ lit ''  '' @ dq @ lit ''summary'' @ dq @ lit '': '' @ dq @ lit ''Brief summary of the day'' @ dq @ nl
     @ lit ''}'' @ nl @ nl
     @ lit ''Guidelines:'' @ nl
     @ lit ''- Create 2-4 time blocks (Morning, Afternoon, Evening, Night)'' @ nl
     @ lit ''- Each block should have 2-5 activities'' @ nl
     @ lit ''- Plan type is: '' @ plan_type_str planType @ lit '' (focus on '' @ plan_focus planType
         @ lit '')'' @ nl
     @ lit ''- Be realistic with time estimates'' @ nl
     @ lit ''- Return ONLY valid JSON, no additional text''"

text \<open>The value assigned to \<open>parsedPlan\<close> in the \<open>catch\<close> block.\<close>

definition fallback_plan :: json where
  "fallback_plan =
     JObj [(lit ''plan'',
            JArr [JObj [(lit ''name'', JStr (lit ''Morning'')),
                        (lit ''activities'',
                         JArr [JObj [(lit ''name'', JStr (lit ''Plan your day'')),
                                     (lit ''startTime'', JStr (lit ''09:00'')),
                                     (lit ''endTime'', JStr (lit ''09:30'')),
                                     (lit ''description'',
                                      JStr (lit ''Take time to organize your schedule'')),
                                     (lit ''priority'', JStr (lit ''high''))]])]]),
           (lit ''summary'', JStr (lit ''A simple day plan to get started.''))]"

text \<open>\<open>try { parsedPlan = JSON.parse(content) } catch { parsedPlan = ... }\<close>\<close>

definition parse_plan :: "(jsstring \<Rightarrow> json option) \<Rightarrow> jsstring \<Rightarrow> json" where
  "parse_plan parse content =
     (case parse content of None \<Rightarrow> fallback_plan | Some j \<Rightarrow> j)"

text \<open>
  The running sum of the \<open>reduce\<close>. While every \<open>block.activities\<close> is an array (or a
  string) the sum is a count. Any other value makes \<open>block.activities.length\<close> something
  that is not a length, and \<open>+\<close> then yields NaN, a string or some other number:
  \<open>Untracked\<close> stands for such a sum, whose value the model does not compute.
\<close>

datatype total = Count nat | Untracked

text \<open>
  \<open>block.activities.length\<close>: a length, or the value of an own property \<open>length\<close>
  (\<open>undefined\<close> when there is none); reading \<open>activities\<close> from \<open>null\<close>, or \<open>length\<close>
  from \<open>null\<close> or \<open>undefined\<close>, throws.
\<close>

definition activities_length :: "json \<Rightarrow> error + (nat + json option)" where
  "activities_length block =
     (case get_field (Some block) (lit ''activities'') of
        Inl e \<Rightarrow> Inl e
      | Inr None \<Rightarrow> Inl TypeError
      | Inr (Some JNull) \<Rightarrow> Inl TypeError
      | Inr (Some (JArr xs)) \<Rightarrow> Inr (Inl (length xs))
      | Inr (Some (JStr s)) \<Rightarrow> Inr (Inl (length s))
      | Inr (Some (JObj kvs)) \<Rightarrow> Inr (Inr (map_of kvs (lit ''length'')))
      | Inr (Some v) \<Rightarrow> Inr (Inr None))"

text \<open>
  \<open>sum + block.activities.length\<close>. Adding an object or an array converts it to a
  primitive first, which throws exactly when \<open>ToString\<close> of it throws.
\<close>

definition add_length :: "total \<Rightarrow> json \<Rightarrow> error + total" where
  "add_length acc block =
     (case activities_length block of
        Inl e \<Rightarrow> Inl e
      | Inr (Inl n) \<Rightarrow> Inr (case acc of Count k \<Rightarrow> Count (k + n) | Untracked \<Rightarrow> Untracked)
      | Inr (Inr None) \<Rightarrow> Inr Untracked
      | Inr (Inr (Some v)) \<Rightarrow> (case to_string v of Inl e \<Rightarrow> Inl e | Inr s \<Rightarrow> Inr Untracked))"

fun reduce_blocks :: "total \<Rightarrow> json list \<Rightarrow> error + total" where
  "reduce_blocks acc [] = Inr acc"
| "reduce_blocks acc (block # blocks) =
     (case add_length acc block of
        Inl e \<Rightarrow> Inl e
      | Inr acc' \<Rightarrow> reduce_blocks acc' blocks)"

text \<open>
  \<open>parsedPlan.plan.reduce((sum, block) => sum + block.activities.length, 0)\<close>. Only an
  array has a method \<open>reduce\<close>: on \<open>undefined\<close> or \<open>null\<close> the property read throws, on
  any other JSON value \<open>reduce\<close> is \<open>undefined\<close> or a JSON value, and calling it throws.
\<close>

definition totalActivities :: "json \<Rightarrow> error + total" where
  "totalActivities parsedPlan =
     (case get_field (Some parsedPlan) (lit ''plan'') of
        Inl e \<Rightarrow> Inl e
      | Inr (Some (JArr blocks)) \<Rightarrow> reduce_blocks (Count 0) blocks
      | Inr v \<Rightarrow> Inl TypeError)"

text \<open>\<open>str.length > len ? `${str.slice(0, len)}...` : str\<close>\<close>

definition truncate_str :: "jsstring \<Rightarrow> nat \<Rightarrow> jsstring" where
  "truncate_str str len = (if length str > len then take len str @ lit ''...'' else str)"

record planner_completion =
  pc_content :: "jsstring option"
  pc_total_tokens :: "nat option"

record planner_input =
  pi_model :: "model_name option"
  pi_prompt :: jsstring
  pi_planType :: "plan_type option"

record history_entry =
  he_model :: model_name
  he_sessionId :: jsstring
  he_prompt :: jsstring
  he_timestamp :: jsstring
  he_tokens :: nat
  he_planType :: plan_type
  he_activityCount :: total

record planner_output =
  po_plan :: "json option"
  po_summary :: "json option"
  po_totalActivities :: total
  po_history :: "history_entry list"
  po_sessionId :: jsstring
  po_threadId :: jsstring
  po_tokens :: nat

text \<open>
  Modelled from the spec: \<open>ctx.thread.state.push(key, item, capacity)\<close> of the runtime,
  which is not among the sources; it "appends, then truncates to the most recent
  \<open>capacity\<close> items, oldest-first eviction".
\<close>

definition state_push :: "'a list option \<Rightarrow> 'a \<Rightarrow> nat \<Rightarrow> 'a list option" where
  "state_push stored item capacity =
     Some (slice_last capacity ((case stored of None \<Rightarrow> [] | Some xs \<Rightarrow> xs) @ [item]))"

text \<open>
  The handler of the day planner. \<open>client\<close> is the chat completion in JSON mode: it
  fails, or returns \<open>choices[0]?.message?.content\<close> and \<open>usage?.total_tokens\<close>.
  \<open>parse\<close> is \<open>JSON.parse\<close>, \<open>now\<close> the timestamp read from the clock, \<open>stored\<close> the
  thread state under the key \<open>history\<close>; the new value of that key is returned with the
  output. Only \<open>JSON.parse\<close> is inside the \<open>try\<close>. The runtime's check of the
  returned value against the output schema comes after the handler and is not part of it.
\<close>

definition day_planner ::
  "('w \<Rightarrow> model_name \<Rightarrow> jsstring \<Rightarrow> jsstring \<Rightarrow> error + (planner_completion \<times> 'w))
     \<Rightarrow> (jsstring \<Rightarrow> json option) \<Rightarrow> agent_ctx \<Rightarrow> jsstring \<Rightarrow> 'w
     \<Rightarrow> history_entry list option \<Rightarrow> planner_input
     \<Rightarrow> error + (planner_output \<times> history_entry list option \<times> 'w)" where
  "day_planner client parse ctx now w stored inp =
     (let planType = (case pi_planType inp of None \<Rightarrow> Mixed | Some p \<Rightarrow> p);
          model = (case pi_model inp of None \<Rightarrow> Gpt5Nano | Some m \<Rightarrow> m)
      in case client w model (planner_prompt planType) (pi_prompt inp) of
           Inl e \<Rightarrow> Inl e
         | Inr (completion, w') \<Rightarrow>
             (let content = (case pc_content completion of None \<Rightarrow> lit ''{}'' | Some c \<Rightarrow> c);
                  tokens = (case pc_total_tokens completion of None \<Rightarrow> 0 | Some n \<Rightarrow> n);
                  parsedPlan = parse_plan parse content
              in case totalActivities parsedPlan of
                   Inl e \<Rightarrow> Inl e
                 | Inr count \<Rightarrow>
                     (let newEntry =
                            \<lparr>he_model = model, he_sessionId = ctx_sessionId ctx,
                             he_prompt = truncate_str (pi_prompt inp) 50, he_timestamp = now,
                             he_tokens = tokens, he_planType = planType,
                             he_activityCount = count\<rparr>;
                          stored' = state_push stored newEntry 5;
                          history = (case stored' of None \<Rightarrow> [] | Some h \<Rightarrow> h)
                      in case get_field (Some parsedPlan) (lit ''plan'') of
                           Inl e \<Rightarrow> Inl e
                         | Inr plan \<Rightarrow>
                             (case get_field (Some parsedPlan) (lit ''summary'') of
                                Inl e \<Rightarrow> Inl e
                              | Inr summary \<Rightarrow>
                                  Inr (\<lparr>po_plan = plan, po_summary = summary,
                                        po_totalActivities = count, po_history = history,
                                        po_sessionId = ctx_sessionId ctx,
                                        po_threadId = ctx_threadId ctx,
                                        po_tokens = tokens\<rparr>,
                                       stored', w')))))"


section \<open>Weather agent (using-tools)\<close>

record coords =
  c_lat :: "json option"
  c_lon :: "json option"
  c_name :: "json option"

text \<open>
  \<open>v?.[0]\<close>: \<open>undefined\<close> for \<open>null\<close> and \<open>undefined\<close>, the first element of an array,
  the first code unit of a string, the own property \<open>0\<close> of an object.
\<close>

fun index0 :: "json option \<Rightarrow> json option" where
  "index0 (Some (JArr (x # xs))) = Some x"
| "index0 (Some (JStr (c # cs))) = Some (JStr [c])"
| "index0 (Some (JObj kvs)) = map_of kvs (lit ''0'')"
| "index0 v = None"

text \<open>
  \<open>getCoordinates\<close>. It has no \<open>try\<close> of its own; the world is returned in every
  case, since the caller catches the failures.
\<close>

definition weather_getCoordinates ::
  "'w env \<Rightarrow> 'w \<Rightarrow> json option \<Rightarrow> (error + coords option) \<times> 'w" where
  "weather_getCoordinates E w location =
     (case encodeURIComponent E location of
        Inl e \<Rightarrow> (Inl e, w)
      | Inr enc \<Rightarrow>
          (case env_fetch E w
                  (lit ''https://geocoding-api.open-meteo.com/v1/search?name='' @ enc
                   @ lit ''&count=1'') of
             (Inl e, w') \<Rightarrow> (Inl e, w')
           | (Inr response, w') \<Rightarrow>
               if \<not> resp_ok response then (Inr None, w')
               else
                 (case response_json E response of
                    Inl e \<Rightarrow> (Inl e, w')
                  | Inr data \<Rightarrow>
                      (case get_field (Some data) (lit ''results'') of
                         Inl e \<Rightarrow> (Inl e, w')
                       | Inr results \<Rightarrow>
                           if \<not> truthy (index0 results) then (Inr None, w')
                           else
                             (case get_field (index0 results) (lit ''latitude'') of
                                Inl e \<Rightarrow> (Inl e, w')
                              | Inr lat \<Rightarrow>
                                  (case get_field (index0 results) (lit ''longitude'') of
                                     Inl e \<Rightarrow> (Inl e, w')
                                   | Inr lon \<Rightarrow>
                                       (case get_field (index0 results) (lit ''name'') of
                                          Inl e \<Rightarrow> (Inl e, w')
                                        | Inr name \<Rightarrow>
                                            (Inr (Some \<lparr>c_lat = lat, c_lon = lon,
                                                         c_name = name\<rparr>), w'))))))))"

definition weatherDescriptions :: "(jsstring \<times> jsstring) list" where
  "weatherDescriptions =
     [(lit ''0'', lit ''Clear sky''),
      (lit ''1'', lit ''Mainly clear''),
      (lit ''2'', lit ''Partly cloudy''),
      (lit ''3'', lit ''Overcast''),
      (lit ''45'', lit ''Foggy''),
      (lit ''48'', lit ''Depositing rime fog''),
      (lit ''51'', lit ''Light drizzle''),
      (lit ''53'', lit ''Moderate drizzle''),
      (lit ''55'', lit ''Dense drizzle''),
      (lit ''61'', lit ''Slight rain''),
      (lit ''63'', lit ''Moderate rain''),
      (lit ''65'', lit ''Heavy rain''),
      (lit ''71'', lit ''Slight snow''),
      (lit ''73'', lit ''Moderate snow''),
      (lit ''75'', lit ''Heavy snow''),
      (lit ''80'', lit ''Slight rain showers''),
      (lit ''81'', lit ''Moderate rain showers''),
      (lit ''82'', lit ''Violent rain showers''),
      (lit ''95'', lit ''Thunderstorm'')]"

text \<open>
  \<open>weatherDescriptions[current.weather_code] ?? 'Unknown conditions'\<close>, as the template
  literal prints it. The key is the code converted to a string. The table is an object
  literal, so a key such as \<open>constructor\<close> finds a member of \<open>Object.prototype\<close>, which
  is not nullish and prints as the environment says.
\<close>

definition describe_code :: "'w env \<Rightarrow> json option \<Rightarrow> error + jsstring" where
  "describe_code E code =
     (case to_string_opt code of
        Inl e \<Rightarrow> Inl e
      | Inr key \<Rightarrow>
          (case map_of weatherDescriptions key of
             Some d \<Rightarrow> Inr d
           | None \<Rightarrow>
               (case env_inherited E key of
                  Some text \<Rightarrow> Inr text
                | None \<Rightarrow> Inr (lit ''Unknown conditions''))))"

text \<open>The part of \<open>getWeather\<close> after a successful response of the weather service.\<close>

definition weather_report :: "'w env \<Rightarrow> coords \<Rightarrow> http_response \<Rightarrow> error + jsstring" where
  "weather_report E cs response =
     (case response_json E response of
        Inl e \<Rightarrow> Inl e
      | Inr data \<Rightarrow>
          (case get_field (Some data) (lit ''current'') of
             Inl e \<Rightarrow> Inl e
           | Inr current \<Rightarrow>
               (case get_field current (lit ''weather_code'') of
                  Inl e \<Rightarrow> Inl e
                | Inr code \<Rightarrow>
                    (case describe_code E code of
                       Inl e \<Rightarrow> Inl e
                     | Inr description \<Rightarrow>
                         (case to_string_opt (c_name cs) of
                            Inl e \<Rightarrow> Inl e
                          | Inr name \<Rightarrow>
                              (case get_field current (lit ''temperature_2m'') of
                                 Inl e \<Rightarrow> Inl e
                               | Inr temperature \<Rightarrow>
                                   (case to_string_opt temperature of
                                      Inl e \<Rightarrow> Inl e
                                    | Inr temp \<Rightarrow>
                                        (case get_field current (lit ''wind_speed_10m'') of
                                           Inl e \<Rightarrow> Inl e
                                         | Inr wind_speed \<Rightarrow>
                                             (case to_string_opt wind_speed of
                                                Inl e \<Rightarrow> Inl e
                                              | Inr wind \<Rightarrow>
                                                  Inr (name @ lit '': '' @ description
                                                       @ lit '', '' @ temp @ [0xB0]
                                                       @ lit ''C, Wind: '' @ wind
                                                       @ lit '' km/h''))))))))))"

definition forecast_url :: "jsstring \<Rightarrow> jsstring \<Rightarrow> jsstring" where
  "forecast_url lat lon =
     lit ''https://api.open-meteo.com/v1/forecast?latitude='' @ lat
     @ lit ''&longitude='' @ lon
     @ lit ''&current=temperature_2m,weather_code,wind_speed_10m&temperature_unit=celsius''"

text \<open>The body of the \<open>try\<close> block of \<open>getWeather\<close>.\<close>

definition weather_try ::
  "'w env \<Rightarrow> 'w \<Rightarrow> json option \<Rightarrow> (error + jsstring) \<times> 'w" where
  "weather_try E w location =
     (case weather_getCoordinates E w location of
        (Inl e, w1) \<Rightarrow> (Inl e, w1)
      | (Inr None, w1) \<Rightarrow>
          (case to_string_opt location of
             Inl e \<Rightarrow> (Inl e, w1)
           | Inr l \<Rightarrow> (Inr (lit ''Could not find location: '' @ l), w1))
      | (Inr (Some cs), w1) \<Rightarrow>
          (case to_string_opt (c_lat cs) of
             Inl e \<Rightarrow> (Inl e, w1)
           | Inr lat \<Rightarrow>
               (case to_string_opt (c_lon cs) of
                  Inl e \<Rightarrow> (Inl e, w1)
                | Inr lon \<Rightarrow>
                    (case env_fetch E w1 (forecast_url lat lon) of
                       (Inl e, w2) \<Rightarrow> (Inl e, w2)
                     | (Inr response, w2) \<Rightarrow>
                         if \<not> resp_ok response then
                           (case to_string_opt location of
                              Inl e \<Rightarrow> (Inl e, w2)
                            | Inr l \<Rightarrow> (Inr (lit ''Weather service error for '' @ l), w2))
                         else (weather_report E cs response, w2)))))"

text \<open>
  \<open>getWeather\<close> of the weather agent: the \<open>try\<close> block, and the \<open>catch\<close> that turns
  every exception into a string. The parameter is declared a string; the handler passes
  \<open>functionArgs.location\<close>, whatever JSON value that is, and the template literal of the
  \<open>catch\<close> block converts it once more.
\<close>

definition weather_getWeather ::
  "'w env \<Rightarrow> 'w \<Rightarrow> json option \<Rightarrow> (error + jsstring) \<times> 'w" where
  "weather_getWeather E w location =
     (case weather_try E w location of
        (Inr result, w') \<Rightarrow> (Inr result, w')
      | (Inl e, w') \<Rightarrow>
          (case to_string_opt location of
             Inl e' \<Rightarrow> (Inl e', w')
           | Inr l \<Rightarrow> (Inr (lit ''Unable to fetch weather for '' @ l), w')))"


section \<open>Notions of the specification\<close>

text \<open>
  The pieces of \<open>split(/\s+/)\<close> that are not tokens are the empty ones: one when the
  content is empty or starts with whitespace, and one when a content that is not empty
  ends with whitespace.
\<close>

definition edge_pieces :: "jsstring \<Rightarrow> nat" where
  "edge_pieces s =
     (if s = [] \<or> is_space (hd s) then 1 else 0)
     + (if s \<noteq> [] \<and> is_space (last s) then 1 else 0)"

text \<open>The tool calls of type \<open>function\<close>, the ones the \<open>for\<close> loop does not skip.\<close>

fun is_function :: "tool_call \<Rightarrow> bool" where
  "is_function (FunctionCall tcid name arguments) = True"
| "is_function (CustomCall tcid name inp) = False"

text \<open>The two events that \<open>executeTool\<close> pushes around a tool that pushes none.\<close>

definition tool_events :: "jsstring \<Rightarrow> json \<Rightarrow> jsstring \<Rightarrow> event list" where
  "tool_events toolName args result =
     [createEvent ToolExecutionStart (PToolArgs toolName args),
      createEvent ToolExecutionEnd (PToolResult toolName (take 200 result))]"

text \<open>
  The variables of the \<open>for\<close> loop when a pass enters it: \<open>toolResults\<close> is empty,
  the rest is what the \<open>while\<close> loop holds.
\<close>

definition start_batch :: "'w loop_state \<Rightarrow> 'w batch" where
  "start_batch st =
     \<lparr>b_results = [], b_executed = ls_executed st, b_events = ls_events st,
      b_world = ls_world st\<rparr>"

text \<open>
  A run of the \<open>while\<close> loop to its end, with the replies of the model on the way:
  \<open>loop_run E ctx model st turns st'\<close> holds when the loop entered in state \<open>st\<close>
  leaves in state \<open>st'\<close>, and \<open>turns\<close> are, in order, the assistant messages with
  which the chat client answered the requests of the passes. In a pass the tools of
  the batch run, the client is called in the world they leave, with the messages so far,
  the assistant message and the tool results, and the loop goes on in the state that the
  body of the loop computes.
\<close>

inductive loop_run ::
  "'w env \<Rightarrow> agent_ctx \<Rightarrow> model_name \<Rightarrow> 'w loop_state \<Rightarrow> assistant_message option list
     \<Rightarrow> 'w loop_state \<Rightarrow> bool"
  for E ctx model where
    no_assistant: "ls_assistant st = None \<Longrightarrow> loop_run E ctx model st [] st"
  | no_tool_calls:
      "ls_assistant st = Some a \<Longrightarrow> am_tool_calls a = None \<Longrightarrow> loop_run E ctx model st [] st"
  | empty_tool_calls:
      "ls_assistant st = Some a \<Longrightarrow> am_tool_calls a = Some [] \<Longrightarrow> loop_run E ctx model st [] st"
  | pass:
      "ls_assistant st = Some a \<Longrightarrow> am_tool_calls a = Some tcs \<Longrightarrow> length tcs > 0
         \<Longrightarrow> run_tool_calls E ctx tcs (start_batch st) = Inr b
         \<Longrightarrow> env_chat E (b_world b)
               \<lparr>req_model = model,
                req_messages = ls_messages st @ [assistant_turn a] @ b_results b,
                req_tools = True\<rparr> = Inr (reply, w')
         \<Longrightarrow> loop_body E ctx model st a tcs = Inr st1
         \<Longrightarrow> loop_run E ctx model st1 turns st'
         \<Longrightarrow> loop_run E ctx model st (reply # turns) st'"

code_pred (modes: i \<Rightarrow> i \<Rightarrow> i \<Rightarrow> i \<Rightarrow> o \<Rightarrow> o \<Rightarrow> bool) loop_run .

text \<open>
  The states in which the \<open>while\<close> loop evaluates its condition:
  \<open>loop_reaches E ctx model st st'\<close> holds when the loop entered in state \<open>st\<close> is in
  state \<open>st'\<close> after some number of completed passes.
\<close>

inductive loop_reaches ::
  "'w env \<Rightarrow> agent_ctx \<Rightarrow> model_name \<Rightarrow> 'w loop_state \<Rightarrow> 'w loop_state \<Rightarrow> bool"
  for E ctx model where
    here: "loop_reaches E ctx model st st"
  | later:
      "ls_assistant st = Some a \<Longrightarrow> am_tool_calls a = Some tcs \<Longrightarrow> length tcs > 0
         \<Longrightarrow> loop_body E ctx model st a tcs = Inr st1
         \<Longrightarrow> loop_reaches E ctx model st1 st'
         \<Longrightarrow> loop_reaches E ctx model st st'"

text \<open>
  The spec's notion of the final text: the last non-empty text content among the
  assistant messages of all turns, or the empty string when there is none. A missing
  message and a null content count as empty.
\<close>

definition last_nonempty :: "assistant_message option list \<Rightarrow> jsstring" where
  "last_nonempty turns =
     (case filter (\<lambda>c. c \<noteq> []) (map content_or_empty turns) of
        [] \<Rightarrow> []
      | c # cs \<Rightarrow> last (c # cs))"

section \<open>Test doubles\<close>

text \<open>
  Stand-ins for the environment, to run the definitions on concrete inputs: a chat client
  that always gives the same reply, one that replays a script (the world is the rest of
  the script), a \<open>fetch\<close> with a fixed outcome and one that replays a script of
  outcomes, a \<open>JSON.parse\<close> that knows the texts \<open>{}\<close> and \<open>null\<close> (and, for the
  weather tool and the weather agent, the arguments of one call and one geocoding
  answer), and an \<open>encodeURIComponent\<close> that leaves its argument as it is.
\<close>

definition reply_with :: "assistant_message option \<Rightarrow> 'w chat" where
  "reply_with m w req = Inr (m, w)"

definition scripted :: "assistant_message option list chat" where
  "scripted w req = (case w of [] \<Rightarrow> Inl ClientError | m # ms \<Rightarrow> Inr (m, ms))"

definition text_reply :: "jsstring \<Rightarrow> assistant_message option" where
  "text_reply c = Some \<lparr>am_content = Some c, am_tool_calls = None\<rparr>"

definition test_parse :: "jsstring \<Rightarrow> json option" where
  "test_parse s =
     (if s = lit ''{}'' then Some (JObj [])
      else if s = lit ''null'' then Some JNull
      else None)"

definition test_env :: "'w chat \<Rightarrow> (error + http_response) \<Rightarrow> 'w env" where
  "test_env chat outcome =
     \<lparr>env_chat = chat, env_fetch = (\<lambda>w url. (outcome, w)), env_parse = test_parse,
      env_encode = Some, env_inherited = (\<lambda>k. None)\<rparr>"

definition test_ctx :: agent_ctx where
  "test_ctx = \<lparr>ctx_sessionId = lit ''session'', ctx_threadId = lit ''thread''\<rparr>"

definition failing_env :: "unit env" where
  "failing_env = test_env (reply_with None) (Inl FetchError)"

definition scripted_env :: "assistant_message option list env" where
  "scripted_env = test_env scripted (Inl FetchError)"

definition planner_reply ::
  "planner_completion \<Rightarrow> 'w \<Rightarrow> model_name \<Rightarrow> jsstring \<Rightarrow> jsstring \<Rightarrow> error + (planner_completion \<times> 'w)" where
  "planner_reply c w model system prompt = Inr (c, w)"

definition paris_geocoding_body :: jsstring where
  "paris_geocoding_body =
     lit ''{'' @ dq @ lit ''results'' @ dq @ lit '':[{'' @ dq @ lit ''latitude'' @ dq @ lit '':48.85,''
     @ dq @ lit ''longitude'' @ dq @ lit '':2.35,'' @ dq @ lit ''name'' @ dq @ lit '':'' @ dq
     @ lit ''Paris'' @ dq @ lit ''}]}''"

definition paris_geocoding_json :: json where
  "paris_geocoding_json =
     JObj [(lit ''results'',
            JArr [JObj [(lit ''latitude'', JNum (lit ''48.85'')),
                        (lit ''longitude'', JNum (lit ''2.35'')),
                        (lit ''name'', JStr (lit ''Paris''))]])]"

definition scripted_fetch ::
  "(error + http_response) list \<Rightarrow> jsstring \<Rightarrow> (error + http_response) \<times> (error + http_response) list" where
  "scripted_fetch w url = (case w of [] \<Rightarrow> (Inl FetchError, []) | r # rs \<Rightarrow> (r, rs))"

definition fetch_env :: "(error + http_response) list env" where
  "fetch_env =
     \<lparr>env_chat = reply_with None, env_fetch = scripted_fetch,
      env_parse = (\<lambda>s. if s = paris_geocoding_body then Some paris_geocoding_json
                         else test_parse s),
      env_encode = Some, env_inherited = (\<lambda>k. None)\<rparr>"

definition paris_arguments :: jsstring where
  "paris_arguments =
     lit ''{'' @ dq @ lit ''location'' @ dq @ lit '':'' @ dq @ lit ''Paris'' @ dq @ lit ''}''"

definition weather_env :: "(error + http_response) \<Rightarrow> assistant_message option list env" where
  "weather_env outcome =
     \<lparr>env_chat = scripted, env_fetch = (\<lambda>w url. (outcome, w)),
      env_parse = (\<lambda>s. if s = paris_arguments
                         then Some (JObj [(lit ''location'', JStr (lit ''Paris''))])
                         else test_parse s),
      env_encode = Some, env_inherited = (\<lambda>k. None)\<rparr>"

definition sunny :: "error + http_response" where
  "sunny = Inr \<lparr>resp_ok = True, resp_body = Some (lit ''Sunny +20C '' @ nl)\<rparr>"

definition not_ok :: "error + http_response" where
  "not_ok = Inr \<lparr>resp_ok = False, resp_body = None\<rparr>"

definition paris_found :: "error + http_response" where
  "paris_found = Inr \<lparr>resp_ok = True, resp_body = Some paris_geocoding_body\<rparr>"

text \<open>Inputs for them.\<close>

definition test_writing_input :: writing_input where
  "test_writing_input =
     \<lparr>wi_topic = lit ''Rome'', wi_insights = [lit ''old''], wi_style = None, wi_model = None\<rparr>"

definition paris_args :: json where
  "paris_args = JObj [(lit ''location'', JStr (lit ''Paris''))]"

definition rome_script :: "assistant_message option list" where
  "rome_script =
     [text_reply (lit ''- old'' @ nl @ lit ''* big''), text_reply (lit ''Rome is old and big.'')]"

definition test_input :: network_input where
  "test_input = \<lparr>ni_message = lit ''hello'', ni_model = None\<rparr>"

definition test_turn :: "tool_call list \<Rightarrow> assistant_message" where
  "test_turn tcs = \<lparr>am_content = Some (lit ''Let me check''), am_tool_calls = Some tcs\<rparr>"

definition test_batch :: "tool_call list" where
  "test_batch =
     [FunctionCall (lit ''call_1'') (lit ''fly'') (lit ''{}''),
      CustomCall (lit ''call_2'') (lit ''shell'') (lit ''ls''),
      FunctionCall (lit ''call_3'') (lit ''swim'') (lit ''{}'')]"

definition unparsable_batch :: "tool_call list" where
  "unparsable_batch = [FunctionCall (lit ''call_1'') (lit ''fly'') (lit ''{location:'')]"

definition custom_batch :: "tool_call list" where
  "custom_batch = [CustomCall (lit ''call_1'') (lit ''shell'') (lit ''ls'')]"

definition test_state :: "tool_call list \<Rightarrow> assistant_message option list loop_state" where
  "test_state tcs = initial_state [] test_input (Some (test_turn tcs)) [text_reply []]"

definition old_entry :: hist_entry where
  "old_entry = \<lparr>h_role = User, h_content = lit ''old''\<rparr>"

definition three_turn_script :: "assistant_message option list" where
  "three_turn_script =
     [Some \<lparr>am_content = Some (lit ''Let me check''),
            am_tool_calls = Some [FunctionCall (lit ''call_1'') (lit ''fly'') (lit ''{}'')]\<rparr>,
      Some \<lparr>am_content = Some (lit ''Almost there''),
            am_tool_calls = Some [FunctionCall (lit ''call_2'') (lit ''fly'') (lit ''{}'')]\<rparr>,
      text_reply []]"

definition weather_call_script :: "assistant_message option list" where
  "weather_call_script =
     [Some \<lparr>am_content = None,
            am_tool_calls =
              Some [FunctionCall (lit ''call_1'') (lit ''get_weather'') paris_arguments]\<rparr>]"

definition test_planner_input :: planner_input where
  "test_planner_input = \<lparr>pi_model = None, pi_prompt = lit ''Plan my day'', pi_planType = None\<rparr>"

section \<open>Splitting at whitespace\<close>

lemma dropWhile_all: "\<forall>x\<in>set xs. P x \<Longrightarrow> dropWhile P xs = []"
  by simp

lemma last_dropWhile: "dropWhile P xs \<noteq> [] \<Longrightarrow> last (dropWhile P xs) = last xs"
  by (induction xs) auto

lemma split_ws_no_space: "\<forall>c\<in>set s. non_space c \<Longrightarrow> split_ws s = [s]"
  by (subst split_ws.simps) (simp add: dropWhile_all)

lemma split_ws_at_space:
  assumes "\<forall>c\<in>set pre. non_space c" and "is_space r"
  shows "split_ws (pre @ r # rs) = pre # split_ws (dropWhile is_space rs)"
proof -
  have "dropWhile non_space (pre @ r # rs) = r # rs"
    using assms by (simp add: dropWhile_append2)
  moreover have "takeWhile non_space (pre @ r # rs) = pre"
    using assms by (simp add: takeWhile_append2)
  ultimately show ?thesis
    by (subst split_ws.simps) simp
qed

lemma tokens_all_space: "\<forall>c\<in>set s. is_space c \<Longrightarrow> tokens s = []"
  by (subst tokens.simps) (simp add: dropWhile_all)

lemma tokens_skip_space: "tokens (dropWhile is_space s) = tokens s"
  by (subst (1 2) tokens.simps) (simp add: dropWhile_idem)

lemma tokens_word:
  assumes "non_space c" and "\<forall>x\<in>set w. non_space x" and "is_space r"
  shows "tokens (c # w @ r # rs) = (c # w) # tokens rs"
proof -
  have "tokens (c # w @ r # rs) = (c # w) # tokens (r # rs)"
    using assms by (subst tokens.simps) (simp add: dropWhile_append2 takeWhile_append2)
  also have "tokens (r # rs) = tokens (dropWhile is_space rs)"
    using assms(3) tokens_skip_space[of "r # rs"] by simp
  finally show ?thesis by (simp add: tokens_skip_space)
qed

lemma tokens_last_word:
  assumes "non_space c" and "\<forall>x\<in>set w. non_space x"
  shows "tokens (c # w) = [c # w]"
  using assms by (subst tokens.simps) (simp add: tokens_all_space dropWhile_all)

lemma edge_pieces_after_run:
  "edge_pieces (dropWhile is_space rs) =
     (if dropWhile is_space rs = [] then 1
      else if is_space (last (dropWhile is_space rs)) then 1 else 0)"
  using hd_dropWhile[of is_space rs] by (auto simp: edge_pieces_def)

lemma split_ws_length: "length (split_ws s) = length (tokens s) + edge_pieces s"
proof (induction s rule: split_ws.induct)
  case (1 s)
  define pre where "pre = takeWhile non_space s"
  have pre: "\<forall>c\<in>set pre. non_space c"
    unfolding pre_def by (auto dest: set_takeWhileD)
  show ?case
  proof (cases "dropWhile non_space s")
    case Nil
    then have ns: "\<forall>c\<in>set s. non_space c" by simp
    show ?thesis
    proof (cases s)
      case Nil
      then show ?thesis by (simp add: split_ws_no_space tokens_all_space edge_pieces_def)
    next
      case (Cons c cs)
      with ns have "tokens s = [s]" by (simp add: tokens_last_word)
      moreover from ns Cons have "non_space (last s)"
        by (metis last_in_set list.distinct(1))
      ultimately show ?thesis using Cons ns
        by (simp add: split_ws_no_space edge_pieces_def)
    qed
  next
    case (Cons r rs)
    then have r: "is_space r" using hd_dropWhile[of non_space s] by auto
    have s: "s = pre @ r # rs"
      unfolding pre_def using Cons takeWhile_dropWhile_id[of non_space s] by simp
    define s' where "s' = dropWhile is_space rs"
    have IH: "length (split_ws s') = length (tokens s') + edge_pieces s'"
      unfolding s'_def using "1.IH"[OF Cons] .
    have sp: "split_ws s = pre # split_ws s'"
      unfolding s'_def by (subst s) (rule split_ws_at_space[OF pre r])
    have tk: "tokens s = (if pre = [] then [] else [pre]) @ tokens s'"
    proof (cases pre)
      case Nil
      then have "tokens s = tokens (r # rs)" using s by simp
      also have "\<dots> = tokens (dropWhile is_space (r # rs))"
        by (simp only: tokens_skip_space)
      finally show ?thesis using Nil r by (simp add: s'_def)
    next
      case (Cons c w)
      then show ?thesis
        using s pre r tokens_word[of c w r rs] by (simp add: s'_def tokens_skip_space)
    qed
    have trail: "is_space (last s) \<longleftrightarrow> s' = [] \<or> is_space (last s')"
    proof (cases "s' = []")
      case True
      then have "\<forall>x\<in>set rs. is_space x" by (simp add: s'_def)
      then have "is_space (last (r # rs))"
        using r by (metis last_in_set list.distinct(1) set_ConsD)
      then show ?thesis using True s by simp
    next
      case False
      then have "rs \<noteq> []" by (auto simp: s'_def)
      moreover have "last s' = last rs"
        using False unfolding s'_def by (rule last_dropWhile)
      ultimately show ?thesis using False s by simp
    qed
    have lead: "is_space (hd s) \<longleftrightarrow> pre = []"
      using s pre r by (cases pre) auto
    have "edge_pieces s = (if pre = [] then 1 else 0) + edge_pieces s'"
      using trail lead s edge_pieces_after_run[of rs] by (simp add: edge_pieces_def s'_def)
    then show ?thesis using sp tk IH by simp
  qed
qed

lemma writing_run_reply:
  assumes "client w
             \<lparr>req_model = (case wi_model inp of None \<Rightarrow> Gpt5Mini | Some m \<Rightarrow> m),
              req_messages =
                [user_message (writing_prompt (case wi_style inp of None \<Rightarrow> Blog | Some s \<Rightarrow> s)
                   (wi_topic inp) (wi_insights inp))],
              req_tools = False\<rparr> = Inr (reply, w')"
  shows "writing_run client ctx w inp =
           Inr (\<lparr>wo_topic = wi_topic inp, wo_content = content_or_empty reply,
                 wo_wordCount = word_count (content_or_empty reply),
                 wo_sessionId = ctx_sessionId ctx, wo_threadId = ctx_threadId ctx\<rparr>, w')"
  using assms by (simp add: writing_run_def Let_def)

section \<open>Writing agent: the word count\<close>

text \<open>
  C7, as the code has it. Whenever the model answers the request of the writing agent,
  the agent returns, as its content, the text content of the model's reply (the empty
  string when the reply has none), and its \<open>wordCount\<close> is the number of
  whitespace-delimited tokens of that content plus the number of empty pieces that
  \<open>split(/\s+/)\<close> leaves at the two ends: one if the content is empty or starts with
  whitespace, one more if it is not empty and ends with whitespace. So it is the number
  of tokens exactly when the content is not empty and has no whitespace at either end.
\<close>

theorem writing_wordCount_pieces:
  assumes "client w
             \<lparr>req_model = (case wi_model inp of None \<Rightarrow> Gpt5Mini | Some m \<Rightarrow> m),
              req_messages =
                [user_message (writing_prompt (case wi_style inp of None \<Rightarrow> Blog | Some s \<Rightarrow> s)
                   (wi_topic inp) (wi_insights inp))],
              req_tools = False\<rparr> = Inr (reply, w')"
  shows "\<exists>out. writing_run client ctx w inp = Inr (out, w')
           \<and> wo_content out = content_or_empty reply
           \<and> wo_wordCount out =
               length (tokens (content_or_empty reply)) + edge_pieces (content_or_empty reply)"
  by (simp add: writing_run_reply[where client = client and w = w and inp = inp, OF assms]
      word_count_def split_ws_length)

theorem writing_wordCount_pieces_witness:
  "reply_with (text_reply (lit '' two words'')) ()
     \<lparr>req_model = (case wi_model test_writing_input of None \<Rightarrow> Gpt5Mini | Some m \<Rightarrow> m),
      req_messages =
        [user_message
           (writing_prompt (case wi_style test_writing_input of None \<Rightarrow> Blog | Some s \<Rightarrow> s)
              (wi_topic test_writing_input) (wi_insights test_writing_input))],
      req_tools = False\<rparr> = Inr (text_reply (lit '' two words''), ())
   \<and> content_or_empty (text_reply (lit '' two words'')) = lit '' two words''
   \<and> tokens (lit '' two words'') = [lit ''two'', lit ''words'']
   \<and> (\<exists>out. writing_run (reply_with (text_reply (lit '' two words''))) test_ctx ()
               test_writing_input = Inr (out, ())
           \<and> wo_content out = lit '' two words''
           \<and> wo_wordCount out = 3)"
proof -
  have h: "reply_with (text_reply (lit '' two words'')) ()
     \<lparr>req_model = (case wi_model test_writing_input of None \<Rightarrow> Gpt5Mini | Some m \<Rightarrow> m),
      req_messages =
        [user_message
           (writing_prompt (case wi_style test_writing_input of None \<Rightarrow> Blog | Some s \<Rightarrow> s)
              (wi_topic test_writing_input) (wi_insights test_writing_input))],
      req_tools = False\<rparr> = Inr (text_reply (lit '' two words''), ())"
    by (simp add: reply_with_def)
  have c: "content_or_empty (text_reply (lit '' two words'')) = lit '' two words''"
    by (simp add: content_or_empty_def text_reply_def)
  have tk: "tokens (lit '' two words'') = [lit ''two'', lit ''words'']"
    by code_simp
  have e: "edge_pieces (lit '' two words'') = 1"
    by (simp add: edge_pieces_def lit_def is_space_def)
  have n: "length (tokens (lit '' two words'')) + edge_pieces (lit '' two words'') = 3"
    by (simp add: tk e)
  from writing_wordCount_pieces[where client = "reply_with (text_reply (lit '' two words''))"
      and w = "()" and inp = test_writing_input and ctx = test_ctx, OF h]
  have "\<exists>out. writing_run (reply_with (text_reply (lit '' two words''))) test_ctx ()
               test_writing_input = Inr (out, ())
           \<and> wo_content out = lit '' two words''
           \<and> wo_wordCount out = 3"
    by (simp add: c n)
  with h c tk show ?thesis by blast
qed

text \<open>
  C7, as the claim states it, fails on the empty content: the model returns the empty
  string, which has no token, and the agent returns the word count 1.
\<close>

theorem writing_wordCount_empty_counterexample:
  "wo_wordCount (fst (projr (writing_run (reply_with (text_reply [])) test_ctx ()
      test_writing_input))) = 1
   \<and> tokens (wo_content (fst (projr (writing_run (reply_with (text_reply [])) test_ctx ()
      test_writing_input)))) = []"
  by (simp add: writing_run_def reply_with_def text_reply_def content_or_empty_def
      word_count_def split_ws.simps tokens.simps Let_def)

section \<open>Network agent: tool dispatch\<close>

lemma tool_switch_unknown:
  assumes "toolName \<notin> {lit ''get_weather'', lit ''research_topic'', lit ''write_content'',
                          lit ''city_research''}"
  shows "tool_switch E ctx toolName args events w =
           Inr (lit ''Unknown tool: '' @ toolName, events, w)"
  using assms by (simp add: tool_switch_def)

text \<open>
  C5. For a tool name that is none of the four, \<open>executeTool\<close> returns the string
  \<open>Unknown tool: <name>\<close> and raises nothing, whatever the arguments and the
  environment are; and the loop over the tool calls, once the arguments of such a call
  have parsed, appends the tool message with that string and goes on with the rest of
  the batch.
\<close>

theorem executeTool_unknown_tool:
  assumes "toolName \<notin> {lit ''get_weather'', lit ''research_topic'', lit ''write_content'',
                          lit ''city_research''}"
    and "env_parse E arguments = Some args"
  shows "executeTool E ctx toolName args events w =
           Inr (lit ''Unknown tool: '' @ toolName,
                events @ tool_events toolName args (lit ''Unknown tool: '' @ toolName), w)
         \<and> run_tool_calls E ctx (FunctionCall tcid toolName arguments # tcs) b =
             run_tool_calls E ctx tcs
               \<lparr>b_results = b_results b
                    @ [tool_message tcid (lit ''Unknown tool: '' @ toolName)],
                b_executed = b_executed b @ [toolName],
                b_events = b_events b
                    @ tool_events toolName args (lit ''Unknown tool: '' @ toolName),
                b_world = b_world b\<rparr>"
  using assms(2)
  by (simp add: executeTool_def tool_switch_unknown[OF assms(1)] tool_events_def)

theorem executeTool_unknown_tool_witness:
  "lit ''fly'' \<notin> {lit ''get_weather'', lit ''research_topic'', lit ''write_content'',
                    lit ''city_research''}
   \<and> env_parse failing_env (lit ''{}'') = Some (JObj [])
   \<and> executeTool failing_env test_ctx (lit ''fly'') (JObj []) [] () =
       Inr (lit ''Unknown tool: fly'',
            tool_events (lit ''fly'') (JObj []) (lit ''Unknown tool: fly''), ())
   \<and> run_tool_calls failing_env test_ctx
        [FunctionCall (lit ''call_1'') (lit ''fly'') (lit ''{}'')]
        \<lparr>b_results = [], b_executed = [], b_events = [], b_world = ()\<rparr> =
       Inr \<lparr>b_results = [tool_message (lit ''call_1'') (lit ''Unknown tool: fly'')],
            b_executed = [lit ''fly''],
            b_events = tool_events (lit ''fly'') (JObj []) (lit ''Unknown tool: fly''),
            b_world = ()\<rparr>"
proof -
  have h1: "lit ''fly'' \<notin> {lit ''get_weather'', lit ''research_topic'', lit ''write_content'',
                            lit ''city_research''}"
    by (simp add: lit_def)
  have h2: "env_parse failing_env (lit ''{}'') = Some (JObj [])"
    by (simp add: failing_env_def test_env_def test_parse_def)
  have l: "lit ''Unknown tool: '' @ lit ''fly'' = lit ''Unknown tool: fly''"
    by (simp add: lit_def)
  show ?thesis
    using h1 h2
      executeTool_unknown_tool[OF h1 h2, of test_ctx "[]" "()" "lit ''call_1''" "[]"
        "\<lparr>b_results = [], b_executed = [], b_events = [], b_world = ()\<rparr>"]
    by (simp add: l)
qed

lemma get_weather_switch:
  assumes "get_field (Some args) (lit ''location'') = Inr (Some (JStr location))"
  shows "tool_switch E ctx (lit ''get_weather'') args events w =
     (case env_encode E location of
        None \<Rightarrow> Inl URIError
      | Some enc \<Rightarrow>
          (case env_fetch E w (wttr_url enc) of
             (Inl e, w') \<Rightarrow> Inl e
           | (Inr response, w') \<Rightarrow>
               (case resp_body response of
                  None \<Rightarrow> Inl FetchError
                | Some body \<Rightarrow>
                    Inr (lit ''Weather in '' @ location @ lit '': '' @ trim body, events, w'))))"
  using assms
  by (auto simp: tool_switch_def getWeather_def encodeURIComponent_def to_string_opt_def
      response_text_def Let_def split: option.splits sum.splits prod.splits)

lemma run_tool_calls_append:
  "run_tool_calls E ctx (xs @ ys) b =
     (case run_tool_calls E ctx xs b of
        Inl e \<Rightarrow> Inl e
      | Inr b1 \<Rightarrow> run_tool_calls E ctx ys b1)"
  by (induction E ctx xs b rule: run_tool_calls.induct)
     (auto split: option.splits sum.splits prod.splits)

lemma loop_body_raise:
  "run_tool_calls E ctx tcs (start_batch st) = Inl e \<Longrightarrow> loop_body E ctx model st a tcs = Inl e"
  by (simp add: loop_body_def start_batch_def)

lemma network_loop_pass:
  assumes "ls_assistant st = Some a" and "am_tool_calls a = Some tcs" and "length tcs > 0"
  shows "network_loop E ctx model st =
           (case loop_body E ctx model st a tcs of
              Inl e \<Rightarrow> Some (Inl e)
            | Inr st1 \<Rightarrow> network_loop E ctx model st1)"
  using assms by (subst network_loop.simps) simp

lemma loop_reaches_network_loop:
  "loop_reaches E ctx model st st' \<Longrightarrow>
     network_loop E ctx model st = network_loop E ctx model st'"
proof (induction rule: loop_reaches.induct)
  case (here st)
  show ?case by simp
next
  case (later st a tcs st1 st')
  then show ?case by (simp add: network_loop_pass)
qed

lemma network_handler_raise:
  assumes "env_chat E w (first_request (case stored of None \<Rightarrow> [] | Some h \<Rightarrow> h) inp)
             = Inr (first, w1)"
    and "network_loop E ctx
           (req_model (first_request (case stored of None \<Rightarrow> [] | Some h \<Rightarrow> h) inp))
           (initial_state (case stored of None \<Rightarrow> [] | Some h \<Rightarrow> h) inp first w1)
             = Some (Inl e)"
  shows "network_handler E ctx w stored inp = Some (Inl e)"
  using assms by (simp add: network_handler_def Let_def)

text \<open>
  C4, as the code has it. With a string for the location, the \<open>get_weather\<close> tool
  returns \<open>Weather in <location>: <trimmed body>\<close> when \<open>fetch\<close> resolves and the
  body can be read, whatever the status of the response is. It raises when the location
  cannot be URI-encoded, when \<open>fetch\<close> rejects and when reading the body fails, and
  nothing catches that: when the call is in the batch of some pass of the routing loop
  and the calls before it in the batch have run, the loop ends with the exception of the
  tool, and so does the handler whose loop has come to that pass.
\<close>

theorem get_weather_tool_result:
  assumes "get_field (Some args) (lit ''location'') = Inr (Some (JStr location))"
    and "env_parse E arguments = Some args"
  shows "executeTool E ctx (lit ''get_weather'') args events w =
     (case env_encode E location of
        None \<Rightarrow> Inl URIError
      | Some enc \<Rightarrow>
          (case env_fetch E w (wttr_url enc) of
             (Inl e, w') \<Rightarrow> Inl e
           | (Inr response, w') \<Rightarrow>
               (case resp_body response of
                  None \<Rightarrow> Inl FetchError
                | Some body \<Rightarrow>
                    Inr (lit ''Weather in '' @ location @ lit '': '' @ trim body,
                         events @ tool_events (lit ''get_weather'') args
                                    (lit ''Weather in '' @ location @ lit '': '' @ trim body),
                         w'))))
   \<and> (ls_assistant st = Some a
      \<and> am_tool_calls a
          = Some (pre @ FunctionCall tcid (lit ''get_weather'') arguments # tcs)
      \<and> run_tool_calls E ctx pre (start_batch st) = Inr b
      \<and> executeTool E ctx (lit ''get_weather'') args (b_events b) (b_world b) = Inl e
      \<longrightarrow> run_tool_calls E ctx (pre @ FunctionCall tcid (lit ''get_weather'') arguments # tcs)
            (start_batch st) = Inl e
        \<and> network_loop E ctx model st = Some (Inl e)
        \<and> (env_chat E w0 (first_request (case stored of None \<Rightarrow> [] | Some h \<Rightarrow> h) inp)
              = Inr (first, w1)
           \<and> loop_reaches E ctx
               (req_model (first_request (case stored of None \<Rightarrow> [] | Some h \<Rightarrow> h) inp))
               (initial_state (case stored of None \<Rightarrow> [] | Some h \<Rightarrow> h) inp first w1) st
           \<longrightarrow> network_handler E ctx w0 stored inp = Some (Inl e)))"
proof (intro conjI impI)
  show "executeTool E ctx (lit ''get_weather'') args events w =
     (case env_encode E location of
        None \<Rightarrow> Inl URIError
      | Some enc \<Rightarrow>
          (case env_fetch E w (wttr_url enc) of
             (Inl e, w') \<Rightarrow> Inl e
           | (Inr response, w') \<Rightarrow>
               (case resp_body response of
                  None \<Rightarrow> Inl FetchError
                | Some body \<Rightarrow>
                    Inr (lit ''Weather in '' @ location @ lit '': '' @ trim body,
                         events @ tool_events (lit ''get_weather'') args
                                    (lit ''Weather in '' @ location @ lit '': '' @ trim body),
                         w'))))"
    by (simp add: executeTool_def get_weather_switch[OF assms(1)] tool_events_def
        split: option.splits sum.splits prod.splits)
next
  assume p: "ls_assistant st = Some a
      \<and> am_tool_calls a
          = Some (pre @ FunctionCall tcid (lit ''get_weather'') arguments # tcs)
      \<and> run_tool_calls E ctx pre (start_batch st) = Inr b
      \<and> executeTool E ctx (lit ''get_weather'') args (b_events b) (b_world b) = Inl e"
  then have "run_tool_calls E ctx (FunctionCall tcid (lit ''get_weather'') arguments # tcs) b
               = Inl e"
    using assms(2) by simp
  with p show r: "run_tool_calls E ctx
      (pre @ FunctionCall tcid (lit ''get_weather'') arguments # tcs) (start_batch st) = Inl e"
    by (simp add: run_tool_calls_append)
  have l: "network_loop E ctx m st = Some (Inl e)" for m
    using p network_loop_pass[of st a "pre @ FunctionCall tcid (lit ''get_weather'') arguments # tcs"
        E ctx m] loop_body_raise[OF r]
    by simp
  show "network_loop E ctx model st = Some (Inl e)"
    by (rule l)
  assume h: "env_chat E w0 (first_request (case stored of None \<Rightarrow> [] | Some h \<Rightarrow> h) inp)
              = Inr (first, w1)
           \<and> loop_reaches E ctx
               (req_model (first_request (case stored of None \<Rightarrow> [] | Some h \<Rightarrow> h) inp))
               (initial_state (case stored of None \<Rightarrow> [] | Some h \<Rightarrow> h) inp first w1) st"
  then have "network_loop E ctx
               (req_model (first_request (case stored of None \<Rightarrow> [] | Some h \<Rightarrow> h) inp))
               (initial_state (case stored of None \<Rightarrow> [] | Some h \<Rightarrow> h) inp first w1)
             = Some (Inl e)"
    using loop_reaches_network_loop l by metis
  with h show "network_handler E ctx w0 stored inp = Some (Inl e)"
    by (simp add: network_handler_raise)
qed

theorem get_weather_tool_result_witness:
  "get_field (Some paris_args) (lit ''location'') = Inr (Some (JStr (lit ''Paris'')))
   \<and> env_parse (weather_env sunny) paris_arguments = Some paris_args
   \<and> env_parse (weather_env (Inl FetchError)) paris_arguments = Some paris_args
   \<and> executeTool (weather_env sunny) test_ctx (lit ''get_weather'') paris_args [] [] =
       Inr (lit ''Weather in Paris: Sunny +20C'',
            tool_events (lit ''get_weather'') paris_args (lit ''Weather in Paris: Sunny +20C''),
            [])
   \<and> network_handler (weather_env (Inl FetchError)) test_ctx weather_call_script None test_input
       = Some (Inl FetchError)"
proof -
  have h: "get_field (Some paris_args) (lit ''location'') = Inr (Some (JStr (lit ''Paris'')))"
    by (simp add: paris_args_def)
  have p: "env_parse (weather_env outcome) paris_arguments = Some paris_args" for outcome
    by (simp add: weather_env_def paris_args_def)
  have f: "env_fetch (weather_env outcome) w url = (outcome, w)"
    "env_encode (weather_env outcome) s = Some s" for outcome w url s
    by (simp_all add: weather_env_def)
  have c: "env_chat (weather_env outcome) (m # ms) req = Inr (m, ms)" for outcome m ms req
    by (simp add: weather_env_def scripted_def)
  have t: "trim (lit ''Sunny +20C '' @ nl) = lit ''Sunny +20C''"
    by (simp add: trim_def lit_def nl_def is_space_def)
  have l: "lit ''Weather in '' @ lit ''Paris'' @ lit '': '' @ lit ''Sunny +20C''
             = lit ''Weather in Paris: Sunny +20C''"
    by (simp add: lit_def)
  note sunny_case = get_weather_tool_result[OF h p, of sunny test_ctx "[]" "[]"]
  have s: "executeTool (weather_env sunny) test_ctx (lit ''get_weather'') paris_args [] [] =
       Inr (lit ''Weather in Paris: Sunny +20C'',
            tool_events (lit ''get_weather'') paris_args (lit ''Weather in Paris: Sunny +20C''),
            [])"
    using sunny_case by (simp add: f sunny_def t l)
  define st0 where "st0 = initial_state [] test_input (hd weather_call_script)
                            ([] :: assistant_message option list)"
  note failing_case = get_weather_tool_result[OF h p, of "Inl FetchError" test_ctx
      "ls_events st0" "[]" st0 "the (hd weather_call_script)" "[]" "lit ''call_1''" "[]"
      "start_batch st0" FetchError Gpt5Mini "weather_call_script" None test_input
      "hd weather_call_script" "[]"]
  have x: "executeTool (weather_env (Inl FetchError)) test_ctx (lit ''get_weather'') paris_args
             (ls_events st0) [] = Inl FetchError"
    using failing_case by (simp add: f)
  have a: "ls_assistant st0 = Some (the (hd weather_call_script))"
    "am_tool_calls (the (hd weather_call_script))
       = Some ([] @ FunctionCall (lit ''call_1'') (lit ''get_weather'') paris_arguments # [])"
    "b_events (start_batch st0) = ls_events st0" "b_world (start_batch st0) = []"
    by (simp_all add: st0_def initial_state_def weather_call_script_def start_batch_def)
  have r: "loop_reaches (weather_env (Inl FetchError)) test_ctx
             (req_model (first_request (case None of None \<Rightarrow> [] | Some h \<Rightarrow> h) test_input))
             (initial_state (case None of None \<Rightarrow> [] | Some h \<Rightarrow> h) test_input
                (hd weather_call_script) []) st0"
    by (simp add: st0_def loop_reaches.here)
  have c0: "env_chat (weather_env (Inl FetchError)) weather_call_script
              (first_request (case None of None \<Rightarrow> [] | Some h \<Rightarrow> h) test_input)
              = Inr (hd weather_call_script, [])"
    by (simp add: weather_call_script_def c)
  have n: "network_handler (weather_env (Inl FetchError)) test_ctx weather_call_script None
             test_input = Some (Inl FetchError)"
    using failing_case x a r c0 by simp
  from h p[of sunny] p[of "Inl FetchError"] s n show ?thesis
    by (intro conjI)
qed

text \<open>
  C4, as the claim states it, fails when \<open>fetch\<close> rejects: the tool returns no string,
  the exception leaves \<open>executeTool\<close>.
\<close>

theorem get_weather_fetch_failure_counterexample:
  "executeTool failing_env test_ctx (lit ''get_weather'') paris_args [] () = Inl FetchError"
  by (simp add: executeTool_def tool_switch_def getWeather_def encodeURIComponent_def
      to_string_opt_def failing_env_def test_env_def paris_args_def Let_def)

section \<open>City workflow: research, then writing\<close>

text \<open>
  C6. For every city string, \<open>cityWorkflow\<close> runs the research agent on the city name
  followed by \<open> - history, culture, landmarks, and interesting facts\<close>; if that fails,
  so does the workflow; otherwise it runs the writing agent, in the world the research
  left, on the city, the insights of that research result and the style \<open>report\<close>, and
  returns the city, those insights, and the content and word count of the writing
  result.
\<close>

theorem cityWorkflow_composition:
  "cityWorkflow E ctx w (Some (JStr city)) =
     (case research_run (env_chat E) ctx w
             \<lparr>ri_topic = city @ lit '' - history, culture, landmarks, and interesting facts'',
              ri_model = None\<rparr> of
        Inl e \<Rightarrow> Inl e
      | Inr (researchResult, w1) \<Rightarrow>
          (case writing_run (env_chat E) ctx w1
                  \<lparr>wi_topic = city, wi_insights = ro_insights researchResult,
                   wi_style = Some Report, wi_model = None\<rparr> of
             Inl e \<Rightarrow> Inl e
           | Inr (writingResult, w2) \<Rightarrow>
               Inr (\<lparr>co_city = Some (JStr city),
                     co_insights = ro_insights researchResult,
                     co_content = wo_content writingResult,
                     co_wordCount = wo_wordCount writingResult\<rparr>, w2)))"
  by (simp add: cityWorkflow_def to_string_opt_def validate_string_def city_suffix_def
      split: sum.splits prod.splits)

theorem cityWorkflow_composition_witness:
  "cityWorkflow scripted_env test_ctx rome_script (Some (JStr (lit ''Rome''))) =
     Inr (\<lparr>co_city = Some (JStr (lit ''Rome'')),
           co_insights = [lit ''old'', lit ''big''],
           co_content = lit ''Rome is old and big.'',
           co_wordCount = 5\<rparr>, [])"
proof -
  have p: "parse_insights (lit ''- old'' @ nl @ lit ''* big'') = [lit ''old'', lit ''big'']"
    by code_simp
  have c: "word_count (lit ''Rome is old and big.'') = 5"
    by code_simp
  show ?thesis
    using cityWorkflow_composition[of scripted_env test_ctx rome_script "lit ''Rome''"]
    by (simp add: scripted_env_def rome_script_def test_env_def scripted_def research_run_def
        writing_run_def text_reply_def content_or_empty_def p c test_ctx_def Let_def)
qed

section \<open>Properties of the routing loop\<close>

lemma run_tool_calls_results:
  "run_tool_calls E ctx tcs b = Inr b' \<Longrightarrow>
     \<exists>results. b_results b' = b_results b @ results
       \<and> map msg_tool_call_id results = map (\<lambda>tc. Some (call_id tc)) (filter is_function tcs)
       \<and> map msg_role results = map (\<lambda>tc. Tool) (filter is_function tcs)"
proof (induction E ctx tcs b rule: run_tool_calls.induct)
  case (1 E ctx b)
  then show ?case by simp
next
  case (2 E ctx tcid name inp tcs b)
  then show ?case by simp
next
  case (3 E ctx tcid toolName arguments tcs b)
  from "3.prems" obtain args result events' w' where
    p: "env_parse E arguments = Some args"
    and x: "executeTool E ctx toolName args (b_events b) (b_world b) = Inr (result, events', w')"
    and r: "run_tool_calls E ctx tcs
              \<lparr>b_results = b_results b @ [tool_message tcid result],
               b_executed = b_executed b @ [toolName], b_events = events', b_world = w'\<rparr> = Inr b'"
    by (auto split: option.splits sum.splits prod.splits)
  from "3.IH"[OF p x refl refl r] obtain results where
    "b_results b' = (b_results b @ [tool_message tcid result]) @ results"
    "map msg_tool_call_id results = map (\<lambda>tc. Some (call_id tc)) (filter is_function tcs)"
    "map msg_role results = map (\<lambda>tc. Tool) (filter is_function tcs)"
    by auto
  then show ?case
    by (intro exI[of _ "tool_message tcid result # results"]) (simp add: tool_message_def)
qed

text \<open>
  C1, as the code has it. Take any state of the \<open>while\<close> loop in which the assistant
  message holds a batch of tool calls that is not empty. If \<open>JSON.parse\<close> of some
  arguments or a tool raises while the batch runs, the loop ends with that exception and
  no model call follows. Otherwise the batch has left exactly one tool message for each
  tool call of type \<open>function\<close>, in the order of the calls, each with the id of its
  call (tool calls of another type are skipped and get no message), and the next model
  call is made with the message list so far, then the assistant message, then these
  tool messages; if it fails, the loop ends with its exception, and if it answers, the
  loop goes on from that message list and the reply.
\<close>

theorem routing_pass_tool_messages:
  assumes "ls_assistant st = Some a" and "am_tool_calls a = Some tcs" and "length tcs > 0"
  shows
    "(case run_tool_calls E ctx tcs (start_batch st) of
        Inl e \<Rightarrow> network_loop E ctx model st = Some (Inl e)
      | Inr b \<Rightarrow>
          length (b_results b) = length (filter is_function tcs)
        \<and> map msg_tool_call_id (b_results b)
            = map (\<lambda>tc. Some (call_id tc)) (filter is_function tcs)
        \<and> map msg_role (b_results b) = map (\<lambda>tc. Tool) (filter is_function tcs)
        \<and> (case env_chat E (b_world b)
                   \<lparr>req_model = model,
                    req_messages = ls_messages st @ [assistant_turn a] @ b_results b,
                    req_tools = True\<rparr> of
              Inl e \<Rightarrow> network_loop E ctx model st = Some (Inl e)
            | Inr (reply, w') \<Rightarrow>
                network_loop E ctx model st =
                  network_loop E ctx model
                    \<lparr>ls_messages = ls_messages st @ [assistant_turn a] @ b_results b,
                     ls_assistant = reply,
                     ls_response = content_or reply (ls_response st),
                     ls_events = b_events b
                       @ [createEvent NetworkStepFinish PExecutedPrimitives,
                          createEvent RoutingAgentStart NoPayload,
                          createEvent RoutingAgentEnd NoPayload],
                     ls_executed = b_executed b,
                     ls_world = w'\<rparr>))"
proof (cases "run_tool_calls E ctx tcs (start_batch st)")
  case (Inl e)
  then show ?thesis
    using network_loop_pass[OF assms, of E ctx model] loop_body_raise[OF Inl, of model a]
    by simp
next
  case (Inr b)
  from run_tool_calls_results[OF Inr] obtain results where
    r: "b_results b = results"
      "map msg_tool_call_id results = map (\<lambda>tc. Some (call_id tc)) (filter is_function tcs)"
      "map msg_role results = map (\<lambda>tc. Tool) (filter is_function tcs)"
    by (auto simp: start_batch_def)
  from r(2) have len: "length results = length (filter is_function tcs)"
    by (metis length_map)
  have "(case env_chat E (b_world b)
                   \<lparr>req_model = model,
                    req_messages = ls_messages st @ [assistant_turn a] @ b_results b,
                    req_tools = True\<rparr> of
              Inl e \<Rightarrow> network_loop E ctx model st = Some (Inl e)
            | Inr (reply, w') \<Rightarrow>
                network_loop E ctx model st =
                  network_loop E ctx model
                    \<lparr>ls_messages = ls_messages st @ [assistant_turn a] @ b_results b,
                     ls_assistant = reply,
                     ls_response = content_or reply (ls_response st),
                     ls_events = b_events b
                       @ [createEvent NetworkStepFinish PExecutedPrimitives,
                          createEvent RoutingAgentStart NoPayload,
                          createEvent RoutingAgentEnd NoPayload],
                     ls_executed = b_executed b,
                     ls_world = w'\<rparr>)"
    using Inr network_loop_pass[OF assms, of E ctx model]
    by (auto simp: loop_body_def start_batch_def Let_def split: sum.splits prod.splits)
  with Inr r len show ?thesis by simp
qed

lemma unknown_fly: "tool_switch E ctx (lit ''fly'') args events w = Inr (lit ''Unknown tool: '' @ lit ''fly'', events, w)"
  by (rule tool_switch_unknown) (simp add: lit_def)

lemma unknown_swim: "tool_switch E ctx (lit ''swim'') args events w = Inr (lit ''Unknown tool: '' @ lit ''swim'', events, w)"
  by (rule tool_switch_unknown) (simp add: lit_def)

lemma test_parse_empty: "env_parse scripted_env (lit ''{}'') = Some (JObj [])"
  by (simp add: scripted_env_def test_env_def test_parse_def)

lemma scripted_chat: "env_chat scripted_env (m # ms) req = Inr (m, ms)"
  by (simp add: scripted_env_def test_env_def scripted_def)

theorem routing_pass_tool_messages_witness:
  "ls_assistant (test_state test_batch) = Some (test_turn test_batch)
   \<and> am_tool_calls (test_turn test_batch) = Some test_batch
   \<and> length test_batch > 0
   \<and> filter is_function test_batch =
        [FunctionCall (lit ''call_1'') (lit ''fly'') (lit ''{}''),
         FunctionCall (lit ''call_3'') (lit ''swim'') (lit ''{}'')]
   \<and> (\<exists>st'. network_loop scripted_env test_ctx Gpt5Mini (test_state test_batch) = Some (Inr st')
          \<and> ls_messages st' = ls_messages (test_state test_batch)
               @ [assistant_turn (test_turn test_batch),
                  tool_message (lit ''call_1'') (lit ''Unknown tool: '' @ lit ''fly''),
                  tool_message (lit ''call_3'') (lit ''Unknown tool: '' @ lit ''swim'')])
   \<and> ls_assistant (test_state unparsable_batch) = Some (test_turn unparsable_batch)
   \<and> am_tool_calls (test_turn unparsable_batch) = Some unparsable_batch
   \<and> length unparsable_batch > 0
   \<and> network_loop scripted_env test_ctx Gpt5Mini (test_state unparsable_batch)
       = Some (Inl SyntaxError)"
proof -
  have u1: "ls_assistant (test_state unparsable_batch) = Some (test_turn unparsable_batch)"
    by (simp add: test_state_def initial_state_def)
  have u2: "am_tool_calls (test_turn unparsable_batch) = Some unparsable_batch"
    by (simp add: test_turn_def)
  have u3: "length unparsable_batch > 0"
    by (simp add: unparsable_batch_def)
  have up: "env_parse scripted_env (lit ''{location:'') = None"
    by (simp add: scripted_env_def test_env_def test_parse_def lit_def)
  have ub: "run_tool_calls scripted_env test_ctx unparsable_batch
              (start_batch (test_state unparsable_batch)) = Inl SyntaxError"
    by (simp add: unparsable_batch_def up)
  from routing_pass_tool_messages[OF u1 u2 u3, of scripted_env test_ctx Gpt5Mini]
  have u: "network_loop scripted_env test_ctx Gpt5Mini (test_state unparsable_batch)
             = Some (Inl SyntaxError)"
    by (simp add: ub)
  have h1: "ls_assistant (test_state test_batch) = Some (test_turn test_batch)"
    by (simp add: test_state_def initial_state_def)
  have h2: "am_tool_calls (test_turn test_batch) = Some test_batch"
    by (simp add: test_turn_def)
  have h3: "length test_batch > 0"
    by (simp add: test_batch_def)
  have f: "filter is_function test_batch =
        [FunctionCall (lit ''call_1'') (lit ''fly'') (lit ''{}''),
         FunctionCall (lit ''call_3'') (lit ''swim'') (lit ''{}'')]"
    by (simp add: test_batch_def)
  have b: "run_tool_calls scripted_env test_ctx test_batch (start_batch (test_state test_batch))
     = Inr \<lparr>b_results = [tool_message (lit ''call_1'') (lit ''Unknown tool: '' @ lit ''fly''),
                         tool_message (lit ''call_3'') (lit ''Unknown tool: '' @ lit ''swim'')],
            b_executed = [lit ''fly'', lit ''swim''],
            b_events = ls_events (test_state test_batch)
              @ tool_events (lit ''fly'') (JObj []) (lit ''Unknown tool: '' @ lit ''fly'')
              @ tool_events (lit ''swim'') (JObj []) (lit ''Unknown tool: '' @ lit ''swim''),
            b_world = [text_reply []]\<rparr>"
    by (simp add: test_batch_def start_batch_def test_state_def initial_state_def
        executeTool_def unknown_fly unknown_swim test_parse_empty tool_events_def)
  have e: "network_loop scripted_env test_ctx Gpt5Mini
             \<lparr>ls_messages = ms, ls_assistant = text_reply [], ls_response = r, ls_events = es,
              ls_executed = xs, ls_world = w\<rparr>
           = Some (Inr \<lparr>ls_messages = ms, ls_assistant = text_reply [], ls_response = r,
                        ls_events = es, ls_executed = xs, ls_world = w\<rparr>)" for ms r es xs w
    by (subst network_loop.simps) (simp add: text_reply_def)
  from routing_pass_tool_messages[OF h1 h2 h3, of scripted_env test_ctx Gpt5Mini]
  have "\<exists>st'. network_loop scripted_env test_ctx Gpt5Mini (test_state test_batch) = Some (Inr st')
          \<and> ls_messages st' = ls_messages (test_state test_batch)
               @ [assistant_turn (test_turn test_batch),
                  tool_message (lit ''call_1'') (lit ''Unknown tool: '' @ lit ''fly''),
                  tool_message (lit ''call_3'') (lit ''Unknown tool: '' @ lit ''swim'')]"
    by (simp add: b scripted_chat e)
  with h1 h2 h3 f u1 u2 u3 u show ?thesis by (intro conjI)
qed

text \<open>
  C1, as the claim states it, fails on a batch that holds a tool call whose type is not
  \<open>function\<close>: the pass completes, the next model call is made, and the message list
  holds the system prompt, the user message and the assistant message, with no tool
  message for the one request of the batch.
\<close>

theorem loop_body_custom_call_counterexample:
  "\<not> isl (loop_body scripted_env test_ctx Gpt5Mini (test_state custom_batch)
            (test_turn custom_batch) custom_batch)
   \<and> length custom_batch = 1
   \<and> map msg_role (ls_messages (projr (loop_body scripted_env test_ctx Gpt5Mini
        (test_state custom_batch) (test_turn custom_batch) custom_batch)))
      = [System, User, Assistant]"
  by (simp add: loop_body_def custom_batch_def test_state_def initial_state_def
      initial_messages_def user_message_def assistant_turn_def scripted_chat Let_def)

text \<open>
  C2. Whenever the handler returns, the history it stores is the prior history with the
  user message and the final response appended, cut to its last 20 entries: a suffix of
  that list, of length 20 or of the full length if that is less.
\<close>

theorem history_is_capped:
  assumes "network_handler E ctx w stored inp = Some (Inr (out, stored', w'))"
  shows "\<exists>kept dropped.
           stored' = Some kept
         \<and> kept = slice_last 20 ((case stored of None \<Rightarrow> [] | Some h \<Rightarrow> h)
                    @ [\<lparr>h_role = User, h_content = ni_message inp\<rparr>,
                       \<lparr>h_role = Assistant, h_content = no_response out\<rparr>])
         \<and> (case stored of None \<Rightarrow> [] | Some h \<Rightarrow> h)
             @ [\<lparr>h_role = User, h_content = ni_message inp\<rparr>,
                \<lparr>h_role = Assistant, h_content = no_response out\<rparr>] = dropped @ kept
         \<and> length kept = min 20 (length (case stored of None \<Rightarrow> [] | Some h \<Rightarrow> h) + 2)
         \<and> length kept \<le> 20"
proof -
  define full where "full = (case stored of None \<Rightarrow> [] | Some h \<Rightarrow> h)
             @ [\<lparr>h_role = User, h_content = ni_message inp\<rparr>,
                \<lparr>h_role = Assistant, h_content = no_response out\<rparr>]"
  from assms have s: "stored' = Some (slice_last 20 full)"
    by (auto simp: network_handler_def Let_def full_def split: sum.splits prod.splits option.splits)
  have "full = take (length full - 20) full @ slice_last 20 full"
    by (simp add: slice_last_def)
  moreover have "length (slice_last 20 full) = min 20 (length full)"
    by (simp add: slice_last_def)
  ultimately show ?thesis
    using s unfolding full_def[symmetric]
    by (intro exI[of _ "slice_last 20 full"] exI[of _ "take (length full - 20) full"])
       (simp add: full_def)
qed

theorem history_is_capped_witness:
  "network_handler scripted_env test_ctx [text_reply (lit ''hi'')] (Some (replicate 19 old_entry))
      test_input
     = Some (Inr (\<lparr>no_message = lit ''hello'', no_response = lit ''hi'',
                   no_events = [createEvent NetworkStart (PMessage (lit ''hello'')),
                                createEvent RoutingAgentStart NoPayload,
                                createEvent RoutingAgentEnd NoPayload,
                                createEvent NetworkComplete (PResponse (lit ''hi''))],
                   no_executedPrimitives = [],
                   no_sessionId = lit ''session'', no_threadId = lit ''thread''\<rparr>,
                  Some (replicate 18 old_entry
                        @ [\<lparr>h_role = User, h_content = lit ''hello''\<rparr>,
                           \<lparr>h_role = Assistant, h_content = lit ''hi''\<rparr>]),
                  []))
   \<and> length (replicate 18 old_entry
                        @ [\<lparr>h_role = User, h_content = lit ''hello''\<rparr>,
                           \<lparr>h_role = Assistant, h_content = lit ''hi''\<rparr>]) = 20"
proof -
  have t: "take 200 (lit ''hi'') = lit ''hi''" by (simp add: lit_def)
  have ne: "lit ''hi'' \<noteq> []" by (simp add: lit_def)
  have sl: "slice_last 20 (replicate 19 old_entry @ [a, b]) = replicate 18 old_entry @ [a, b]" for a b
    by (simp add: slice_last_def replicate_add[symmetric] del: replicate_Suc replicate_add)
  have h: "network_handler scripted_env test_ctx [text_reply (lit ''hi'')] (Some (replicate 19 old_entry))
      test_input
     = Some (Inr (\<lparr>no_message = lit ''hello'', no_response = lit ''hi'',
                   no_events = [createEvent NetworkStart (PMessage (lit ''hello'')),
                                createEvent RoutingAgentStart NoPayload,
                                createEvent RoutingAgentEnd NoPayload,
                                createEvent NetworkComplete (PResponse (lit ''hi''))],
                   no_executedPrimitives = [],
                   no_sessionId = lit ''session'', no_threadId = lit ''thread''\<rparr>,
                  Some (replicate 18 old_entry
                        @ [\<lparr>h_role = User, h_content = lit ''hello''\<rparr>,
                           \<lparr>h_role = Assistant, h_content = lit ''hi''\<rparr>]),
                  []))"
    by (simp add: network_handler_def scripted_chat text_reply_def network_loop.simps
        initial_state_def content_or_def test_input_def test_ctx_def t ne sl Let_def)
  have len: "length (replicate 18 old_entry
                        @ [\<lparr>h_role = User, h_content = lit ''hello''\<rparr>,
                           \<lparr>h_role = Assistant, h_content = lit ''hi''\<rparr>]) = 20"
    by simp
  from history_is_capped[OF h] h len show ?thesis by blast
qed

lemma loop_body_reply:
  assumes "loop_body E ctx model st a tcs = Inr st1"
  shows "\<exists>b reply w'.
           run_tool_calls E ctx tcs (start_batch st) = Inr b
         \<and> env_chat E (b_world b)
               \<lparr>req_model = model,
                req_messages = ls_messages st @ [assistant_turn a] @ b_results b,
                req_tools = True\<rparr> = Inr (reply, w')
         \<and> ls_assistant st1 = reply
         \<and> ls_response st1 = content_or reply (ls_response st)"
  using assms
  by (auto simp: loop_body_def start_batch_def Let_def split: sum.splits prod.splits)

lemma network_loop_run:
  assumes "network_loop E ctx model st = Some (Inr st')"
  shows "\<exists>turns. loop_run E ctx model st turns st'"
proof -
  have "\<forall>st'. y = Inr st' \<longrightarrow> (\<exists>turns. loop_run E ctx model st turns st')"
    if "network_loop E ctx model st = Some y" for y
    using that
  proof (induction rule: network_loop.raw_induct[rotated, consumes 1, case_names pass])
    case (pass loop E ctx model st y)
    show ?case
    proof (intro allI impI)
      fix st' assume y: "y = Inr st'"
      show "\<exists>turns. loop_run E ctx model st turns st'"
      proof (cases "ls_assistant st")
        case None
        with pass(2) y show ?thesis by (auto intro: loop_run.no_assistant)
      next
        case (Some a)
        show ?thesis
        proof (cases "am_tool_calls a")
          case None
          with pass(2) y Some show ?thesis by (auto intro: loop_run.no_tool_calls)
        next
          case tc: (Some tcs)
          show ?thesis
          proof (cases "length tcs > 0")
            case False
            with pass(2) y Some tc show ?thesis by (auto intro: loop_run.empty_tool_calls)
          next
            case True
            with pass(2) y Some tc obtain st1 where
              b: "loop_body E ctx model st a tcs = Inr st1" and l: "loop E ctx model st1 = Some (Inr st')"
              by (auto split: sum.splits)
            from pass(1)[OF l] obtain turns where t: "loop_run E ctx model st1 turns st'" by auto
            from loop_body_reply[OF b] obtain bt reply w' where
              "run_tool_calls E ctx tcs (start_batch st) = Inr bt"
              "env_chat E (b_world bt)
                 \<lparr>req_model = model,
                  req_messages = ls_messages st @ [assistant_turn a] @ b_results bt,
                  req_tools = True\<rparr> = Inr (reply, w')"
              by blast
            with Some tc True b t have "loop_run E ctx model st (reply # turns) st'"
              by (intro loop_run.pass)
            then show ?thesis by blast
          qed
        qed
      qed
    qed
  qed
  with assms show ?thesis by blast
qed

lemma loop_run_network_loop:
  "loop_run E ctx model st turns st' \<Longrightarrow> network_loop E ctx model st = Some (Inr st')"
proof (induction rule: loop_run.induct)
  case (no_assistant st)
  then show ?case by (subst network_loop.simps) simp
next
  case (no_tool_calls st a)
  then show ?case by (subst network_loop.simps) simp
next
  case (empty_tool_calls st a)
  then show ?case by (subst network_loop.simps) simp
next
  case (pass st a tcs st1 turns st')
  then show ?case by (subst network_loop.simps) simp
qed

lemma network_loop_iff_loop_run:
  "network_loop E ctx model st = Some (Inr st') \<longleftrightarrow> (\<exists>turns. loop_run E ctx model st turns st')"
  using network_loop_run loop_run_network_loop by blast

lemma loop_run_response:
  "loop_run E ctx model st turns st' \<Longrightarrow>
     ls_response st' = foldl (\<lambda>response m. content_or m response) (ls_response st) turns"
proof (induction rule: loop_run.induct)
  case (pass st a tcs b reply w' st1 turns st')
  from loop_body_reply[OF pass(6)] pass(4,5)
  have "ls_response st1 = content_or reply (ls_response st)"
    by auto
  with pass show ?case by simp
qed simp_all

lemma content_or_alt:
  "content_or m r = (if content_or_empty m = [] then r else content_or_empty m)"
  by (simp add: content_or_def content_or_empty_def split: option.splits)

lemma foldl_content_or:
  "foldl (\<lambda>response m. content_or m response) r turns =
     (case filter (\<lambda>c. c \<noteq> []) (map content_or_empty turns) of
        [] \<Rightarrow> r
      | c # cs \<Rightarrow> last (c # cs))"
proof (induction turns arbitrary: r)
  case Nil
  then show ?case by simp
next
  case (Cons m turns)
  have "foldl (\<lambda>response m. content_or m response) r (m # turns) =
          (case filter (\<lambda>c. c \<noteq> []) (map content_or_empty turns) of
             [] \<Rightarrow> content_or m r
           | c # cs \<Rightarrow> last (c # cs))"
    by (simp add: Cons.IH)
  then show ?case
    by (cases "content_or_empty m = []") (simp_all add: content_or_alt split: list.splits)
qed

text \<open>
  C3. Whenever the handler returns, its response is the result of starting from the
  empty string and, for the reply of the chat client to the first request and then for
  its reply to the request of every pass of the loop, in order, taking the text content
  of the reply if it is a non-empty string and keeping the text so far otherwise; so it
  is the last non-empty content among all replies, or empty if there is none.
\<close>

theorem response_is_last_nonempty_content:
  assumes "network_handler E ctx w stored inp = Some (Inr (out, stored', w'))"
  shows "\<exists>first w1 turns st'.
           env_chat E w (first_request (case stored of None \<Rightarrow> [] | Some h \<Rightarrow> h) inp)
             = Inr (first, w1)
         \<and> loop_run E ctx (req_model (first_request (case stored of None \<Rightarrow> [] | Some h \<Rightarrow> h) inp))
             (initial_state (case stored of None \<Rightarrow> [] | Some h \<Rightarrow> h) inp first w1) turns st'
         \<and> no_response out = ls_response st'
         \<and> no_response out = foldl (\<lambda>response m. content_or m response) [] (first # turns)
         \<and> no_response out = last_nonempty (first # turns)"
proof -
  define history where "history = (case stored of None \<Rightarrow> [] | Some h \<Rightarrow> h)"
  from assms obtain first w1 st' where
    c: "env_chat E w (first_request history inp) = Inr (first, w1)"
    and l: "network_loop E ctx (req_model (first_request history inp))
              (initial_state history inp first w1) = Some (Inr st')"
    and r: "no_response out = ls_response st'"
    by (auto simp: network_handler_def Let_def history_def
        split: sum.splits prod.splits option.splits)
  from network_loop_run[OF l] obtain turns where
    run: "loop_run E ctx (req_model (first_request history inp))
            (initial_state history inp first w1) turns st'"
    by blast
  have "ls_response st' = foldl (\<lambda>response m. content_or m response) (content_or first []) turns"
    using loop_run_response[OF run] by (simp add: initial_state_def)
  then have f: "no_response out = foldl (\<lambda>response m. content_or m response) [] (first # turns)"
    using r by simp
  then have "no_response out = last_nonempty (first # turns)"
    by (simp only: foldl_content_or last_nonempty_def)
  with c run r f show ?thesis
    unfolding history_def by blast
qed

theorem response_is_last_nonempty_content_witness:
  "\<exists>out stored'.
      network_handler scripted_env test_ctx three_turn_script None test_input
        = Some (Inr (out, stored', []))
    \<and> no_response out = lit ''Almost there''
    \<and> map content_or_empty three_turn_script = [lit ''Let me check'', lit ''Almost there'', []]
    \<and> last_nonempty three_turn_script = lit ''Almost there''"
proof -
  have ne: "lit ''Let me check'' \<noteq> []" "lit ''Almost there'' \<noteq> []"
    by (simp_all add: lit_def)
  obtain out stored' where
    h: "network_handler scripted_env test_ctx three_turn_script None test_input
          = Some (Inr (out, stored', []))"
    and r: "no_response out = lit ''Almost there''"
    by (simp add: network_handler_def three_turn_script_def scripted_chat text_reply_def
        network_loop.simps loop_body_def executeTool_def unknown_fly
        test_parse_empty initial_state_def content_or_def ne Let_def)
  have m: "map content_or_empty three_turn_script
             = [lit ''Let me check'', lit ''Almost there'', []]"
    by (simp add: three_turn_script_def text_reply_def content_or_empty_def)
  have l: "last_nonempty three_turn_script = lit ''Almost there''"
    by (simp add: last_nonempty_def m ne)
  from response_is_last_nonempty_content[OF h] h r m l show ?thesis
    by (intro exI[of _ out] exI[of _ stored'] conjI)
qed

section \<open>Day planner: malformed model output\<close>

lemma totalActivities_fallback: "totalActivities fallback_plan = Inr (Count 1)"
  by (simp add: totalActivities_def fallback_plan_def add_length_def activities_length_def lit_def)

text \<open>
  C8. When the model's content is not valid JSON (\<open>JSON.parse\<close> throws), the handler
  of the day planner raises nothing: it returns the placeholder plan, one block
  \<open>Morning\<close> with the one activity \<open>Plan your day\<close>, the summary
  \<open>A simple day plan to get started.\<close> and the activity count 1.
\<close>

theorem day_planner_parse_fallback:
  assumes "client w (case pi_model inp of None \<Rightarrow> Gpt5Nano | Some m \<Rightarrow> m)
             (planner_prompt (case pi_planType inp of None \<Rightarrow> Mixed | Some p \<Rightarrow> p))
             (pi_prompt inp) = Inr (completion, w')"
    and "pc_content completion = Some content"
    and "parse content = None"
  shows "\<exists>out stored'.
           day_planner client parse ctx now w stored inp = Inr (out, stored', w')
         \<and> po_plan out =
             Some (JArr [JObj [(lit ''name'', JStr (lit ''Morning'')),
                               (lit ''activities'',
                                JArr [JObj [(lit ''name'', JStr (lit ''Plan your day'')),
                                            (lit ''startTime'', JStr (lit ''09:00'')),
                                            (lit ''endTime'', JStr (lit ''09:30'')),
                                            (lit ''description'',
                                             JStr (lit ''Take time to organize your schedule'')),
                                            (lit ''priority'', JStr (lit ''high''))]])]])
         \<and> po_summary out = Some (JStr (lit ''A simple day plan to get started.''))
         \<and> po_totalActivities out = Count 1"
proof -
  have p: "parse_plan parse content = fallback_plan"
    using assms(3) by (simp add: parse_plan_def)
  have f1: "get_field (Some fallback_plan) (lit ''plan'') =
              Inr (Some (JArr [JObj [(lit ''name'', JStr (lit ''Morning'')),
                               (lit ''activities'',
                                JArr [JObj [(lit ''name'', JStr (lit ''Plan your day'')),
                                            (lit ''startTime'', JStr (lit ''09:00'')),
                                            (lit ''endTime'', JStr (lit ''09:30'')),
                                            (lit ''description'',
                                             JStr (lit ''Take time to organize your schedule'')),
                                            (lit ''priority'', JStr (lit ''high''))]])]]))"
    by (simp add: fallback_plan_def)
  have f2: "get_field (Some fallback_plan) (lit ''summary'') =
              Inr (Some (JStr (lit ''A simple day plan to get started.'')))"
    by (simp add: fallback_plan_def lit_def)
  show ?thesis
    using assms(1,2)
    by (simp add: day_planner_def Let_def p totalActivities_fallback f1 f2)
qed

theorem day_planner_parse_fallback_witness:
  "\<exists>out stored'.
      test_parse (lit ''Sure! Here is your plan'') = None
    \<and> day_planner (planner_reply \<lparr>pc_content = Some (lit ''Sure! Here is your plan''),
                                   pc_total_tokens = Some 7\<rparr>)
        test_parse test_ctx (lit ''2026-01-01T00:00:00.000Z'') () None test_planner_input
        = Inr (out, stored', ())
    \<and> po_totalActivities out = Count 1
    \<and> po_summary out = Some (JStr (lit ''A simple day plan to get started.''))"
proof -
  have h1: "planner_reply \<lparr>pc_content = Some (lit ''Sure! Here is your plan''),
                           pc_total_tokens = Some 7\<rparr> ()
              (case pi_model test_planner_input of None \<Rightarrow> Gpt5Nano | Some m \<Rightarrow> m)
              (planner_prompt (case pi_planType test_planner_input of None \<Rightarrow> Mixed | Some p \<Rightarrow> p))
              (pi_prompt test_planner_input)
            = Inr (\<lparr>pc_content = Some (lit ''Sure! Here is your plan''),
                     pc_total_tokens = Some 7\<rparr>, ())"
    by (simp add: planner_reply_def)
  have h2: "pc_content \<lparr>pc_content = Some (lit ''Sure! Here is your plan''),
                         pc_total_tokens = Some 7\<rparr> = Some (lit ''Sure! Here is your plan'')"
    by simp
  have h3: "test_parse (lit ''Sure! Here is your plan'') = None"
    by (simp add: test_parse_def lit_def)
  from day_planner_parse_fallback[where client = "planner_reply
        \<lparr>pc_content = Some (lit ''Sure! Here is your plan''), pc_total_tokens = Some 7\<rparr>"
      and parse = test_parse and inp = test_planner_input and w = "()"
      and ctx = test_ctx and now = "lit ''2026-01-01T00:00:00.000Z''" and stored = None,
      OF h1 h2 h3] h3
  show ?thesis by blast
qed

lemma totalActivities_no_plan:
  assumes "\<forall>blocks. get_field (Some j) (lit ''plan'') \<noteq> Inr (Some (JArr blocks))"
  shows "totalActivities j = Inl TypeError"
proof (cases "get_field (Some j) (lit ''plan'')")
  case (Inl e)
  then have "e = TypeError" by (cases j) auto
  with Inl show ?thesis by (simp add: totalActivities_def)
next
  case (Inr v)
  with assms show ?thesis
    by (cases v) (auto simp: totalActivities_def split: json.splits)
qed

text \<open>
  C9. The placeholder is for parse failures only. When the content parses, or is null
  and so defaults to \<open>{}\<close>, and the parsed value has no array under \<open>plan\<close>, the
  handler raises a TypeError while computing \<open>totalActivities\<close>; the literal \<open>{}\<close>
  and a null content are such responses.
\<close>

theorem day_planner_missing_plan_raises:
  assumes "client w (case pi_model inp of None \<Rightarrow> Gpt5Nano | Some m \<Rightarrow> m)
             (planner_prompt (case pi_planType inp of None \<Rightarrow> Mixed | Some p \<Rightarrow> p))
             (pi_prompt inp) = Inr (completion, w')"
    and "parse (case pc_content completion of None \<Rightarrow> lit ''{}'' | Some c \<Rightarrow> c) = Some j"
    and "\<forall>blocks. get_field (Some j) (lit ''plan'') \<noteq> Inr (Some (JArr blocks))"
  shows "day_planner client parse ctx now w stored inp = Inl TypeError"
  using assms(1,2)
  by (simp add: day_planner_def Let_def parse_plan_def totalActivities_no_plan[OF assms(3)])

theorem day_planner_missing_plan_raises_witness:
  "test_parse (lit ''{}'') = Some (JObj [])
   \<and> get_field (Some (JObj [])) (lit ''plan'') = Inr None
   \<and> day_planner (planner_reply \<lparr>pc_content = None, pc_total_tokens = None\<rparr>)
        test_parse test_ctx (lit ''2026-01-01T00:00:00.000Z'') () None test_planner_input
        = Inl TypeError
   \<and> day_planner (planner_reply \<lparr>pc_content = Some (lit ''{}''), pc_total_tokens = None\<rparr>)
        test_parse test_ctx (lit ''2026-01-01T00:00:00.000Z'') () None test_planner_input
        = Inl TypeError"
proof -
  have p: "test_parse (lit ''{}'') = Some (JObj [])"
    by (simp add: test_parse_def)
  have g: "get_field (Some (JObj [])) (lit ''plan'') = Inr None"
    by simp
  have n: "\<forall>blocks. get_field (Some (JObj [])) (lit ''plan'') \<noteq> Inr (Some (JArr blocks))"
    by simp
  have c: "planner_reply cmp ()
              (case pi_model test_planner_input of None \<Rightarrow> Gpt5Nano | Some m \<Rightarrow> m)
              (planner_prompt (case pi_planType test_planner_input of None \<Rightarrow> Mixed | Some p \<Rightarrow> p))
              (pi_prompt test_planner_input) = Inr (cmp, ())" for cmp
    by (simp add: planner_reply_def)
  have p1: "test_parse (case pc_content \<lparr>pc_content = None, pc_total_tokens = None\<rparr> of
                          None \<Rightarrow> lit ''{}'' | Some c \<Rightarrow> c) = Some (JObj [])"
    using p by simp
  have p2: "test_parse (case pc_content \<lparr>pc_content = Some (lit ''{}''), pc_total_tokens = None\<rparr> of
                          None \<Rightarrow> lit ''{}'' | Some c \<Rightarrow> c) = Some (JObj [])"
    using p by simp
  from day_planner_missing_plan_raises[where client = "planner_reply
        \<lparr>pc_content = None, pc_total_tokens = None\<rparr>"
      and parse = test_parse and inp = test_planner_input and w = "()", OF c p1 n]
    day_planner_missing_plan_raises[where client = "planner_reply
        \<lparr>pc_content = Some (lit ''{}''), pc_total_tokens = None\<rparr>"
      and parse = test_parse and inp = test_planner_input and w = "()", OF c p2 n]
    p g
  show ?thesis by blast
qed

section \<open>Weather agent: \<open>getWeather\<close> always returns a string\<close>

lemma to_string_opt_str: "to_string_opt (Some (JStr l)) = Inr l"
  by (simp add: to_string_opt_def)

text \<open>
  C10. For every location string, every environment and every state of the world,
  \<open>getWeather\<close> of the weather agent returns a string and throws nothing. When
  geocoding finds nothing the string is \<open>Could not find location: <location>\<close>; when
  the weather service answers with a response that is not OK it is
  \<open>Weather service error for <location>\<close>; when anything in the \<open>try\<close> block throws
  it is \<open>Unable to fetch weather for <location>\<close>.
\<close>

theorem weather_getWeather_total:
  "\<exists>s w'. weather_getWeather E w (Some (JStr location)) = (Inr s, w')
     \<and> (\<forall>w1. weather_getCoordinates E w (Some (JStr location)) = (Inr None, w1)
           \<longrightarrow> s = lit ''Could not find location: '' @ location)
     \<and> (\<forall>cs w1 lat lon response w2.
           weather_getCoordinates E w (Some (JStr location)) = (Inr (Some cs), w1)
           \<and> to_string_opt (c_lat cs) = Inr lat \<and> to_string_opt (c_lon cs) = Inr lon
           \<and> env_fetch E w1 (forecast_url lat lon) = (Inr response, w2) \<and> \<not> resp_ok response
           \<longrightarrow> s = lit ''Weather service error for '' @ location)
     \<and> (\<forall>e w1. weather_try E w (Some (JStr location)) = (Inl e, w1)
           \<longrightarrow> s = lit ''Unable to fetch weather for '' @ location)"
proof -
  obtain r w' where t: "weather_try E w (Some (JStr location)) = (r, w')"
    by (cases "weather_try E w (Some (JStr location))")
  show ?thesis
  proof (cases r)
    case (Inl e)
    with t have g: "weather_getWeather E w (Some (JStr location))
                  = (Inr (lit ''Unable to fetch weather for '' @ location), w')"
      by (simp add: weather_getWeather_def to_string_opt_str)
    from t Inl have n1: "\<forall>w1. weather_getCoordinates E w (Some (JStr location)) \<noteq> (Inr None, w1)"
      by (auto simp: weather_try_def to_string_opt_str split: prod.splits sum.splits option.splits if_splits)
    from t Inl have n2: "\<not> (\<exists>cs w1 lat lon response w2.
           weather_getCoordinates E w (Some (JStr location)) = (Inr (Some cs), w1)
           \<and> to_string_opt (c_lat cs) = Inr lat \<and> to_string_opt (c_lon cs) = Inr lon
           \<and> env_fetch E w1 (forecast_url lat lon) = (Inr response, w2) \<and> \<not> resp_ok response)"
      by (auto simp: weather_try_def to_string_opt_str split: prod.splits sum.splits option.splits if_splits)
    from g n1 n2 show ?thesis by blast
  next
    case (Inr s)
    with t have g: "weather_getWeather E w (Some (JStr location)) = (Inr s, w')"
      by (simp add: weather_getWeather_def)
    from t Inr have c1: "\<forall>w1. weather_getCoordinates E w (Some (JStr location)) = (Inr None, w1)
           \<longrightarrow> s = lit ''Could not find location: '' @ location"
      by (auto simp: weather_try_def to_string_opt_str split: prod.splits sum.splits option.splits if_splits)
    from t Inr have c2: "\<forall>cs w1 lat lon response w2.
           weather_getCoordinates E w (Some (JStr location)) = (Inr (Some cs), w1)
           \<and> to_string_opt (c_lat cs) = Inr lat \<and> to_string_opt (c_lon cs) = Inr lon
           \<and> env_fetch E w1 (forecast_url lat lon) = (Inr response, w2) \<and> \<not> resp_ok response
           \<longrightarrow> s = lit ''Weather service error for '' @ location"
      by (auto simp: weather_try_def to_string_opt_str split: prod.splits sum.splits option.splits if_splits)
    from g c1 c2 t Inr show ?thesis by auto
  qed
qed

theorem weather_getWeather_total_witness:
  "weather_getCoordinates fetch_env [not_ok] (Some (JStr (lit ''Atlantis''))) = (Inr None, [])
   \<and> fst (weather_getWeather fetch_env [not_ok] (Some (JStr (lit ''Atlantis''))))
       = Inr (lit ''Could not find location: '' @ lit ''Atlantis'')
   \<and> env_fetch fetch_env [not_ok] (forecast_url (lit ''48.85'') (lit ''2.35'')) = (not_ok, [])
   \<and> fst (weather_getWeather fetch_env [paris_found, not_ok] (Some (JStr (lit ''Paris''))))
       = Inr (lit ''Weather service error for '' @ lit ''Paris'')
   \<and> weather_try fetch_env [] (Some (JStr (lit ''Paris''))) = (Inl FetchError, [])
   \<and> fst (weather_getWeather fetch_env [] (Some (JStr (lit ''Paris''))))
       = Inr (lit ''Unable to fetch weather for '' @ lit ''Paris'')"
proof -
  have ne: "paris_geocoding_json \<noteq> JNull" "lit ''Paris'' \<noteq> []"
    by (simp_all add: paris_geocoding_json_def lit_def)
  have p: "env_parse fetch_env paris_geocoding_body = Some paris_geocoding_json"
    by (simp add: fetch_env_def)
  have enc: "encodeURIComponent fetch_env (Some (JStr l)) = Inr l" for l
    by (simp add: encodeURIComponent_def to_string_opt_str fetch_env_def)
  have f: "env_fetch fetch_env (r # rs) url = (r, rs)"
    "env_fetch fetch_env [] url = (Inl FetchError, [])" for r rs url
    by (simp_all add: fetch_env_def scripted_fetch_def)
  have a1: "weather_getCoordinates fetch_env [not_ok] (Some (JStr (lit ''Atlantis'')))
              = (Inr None, [])"
    by (simp add: weather_getCoordinates_def enc f not_ok_def)
  have b1: "weather_getCoordinates fetch_env [paris_found, not_ok] (Some (JStr (lit ''Paris'')))
     = (Inr (Some \<lparr>c_lat = Some (JNum (lit ''48.85'')), c_lon = Some (JNum (lit ''2.35'')),
                    c_name = Some (JStr (lit ''Paris''))\<rparr>), [not_ok])"
    by (simp add: weather_getCoordinates_def enc f paris_found_def response_json_def p
        paris_geocoding_json_def ne) (simp add: lit_def)
  have b2: "env_fetch fetch_env [not_ok] (forecast_url (lit ''48.85'') (lit ''2.35''))
              = (Inr \<lparr>resp_ok = False, resp_body = None\<rparr>, [])"
    by (simp add: f not_ok_def)
  have b3: "to_string_opt (c_lat \<lparr>c_lat = Some (JNum (lit ''48.85'')),
                c_lon = Some (JNum (lit ''2.35'')), c_name = Some (JStr (lit ''Paris''))\<rparr>)
              = Inr (lit ''48.85'')"
    "to_string_opt (c_lon \<lparr>c_lat = Some (JNum (lit ''48.85'')),
                c_lon = Some (JNum (lit ''2.35'')), c_name = Some (JStr (lit ''Paris''))\<rparr>)
              = Inr (lit ''2.35'')"
    "\<not> resp_ok \<lparr>resp_ok = False, resp_body = None\<rparr>"
    by (simp_all add: to_string_opt_def)
  have c1: "weather_try fetch_env [] (Some (JStr (lit ''Paris''))) = (Inl FetchError, [])"
    by (simp add: weather_try_def weather_getCoordinates_def enc f)
  have a: "fst (weather_getWeather fetch_env [not_ok] (Some (JStr (lit ''Atlantis''))))
       = Inr (lit ''Could not find location: '' @ lit ''Atlantis'')"
    using weather_getWeather_total[of fetch_env "[not_ok]" "lit ''Atlantis''"] a1
    by fastforce
  have b: "fst (weather_getWeather fetch_env [paris_found, not_ok] (Some (JStr (lit ''Paris''))))
       = Inr (lit ''Weather service error for '' @ lit ''Paris'')"
    using weather_getWeather_total[of fetch_env "[paris_found, not_ok]" "lit ''Paris''"]
      b1 b2 b3
    by fastforce
  have c: "fst (weather_getWeather fetch_env [] (Some (JStr (lit ''Paris''))))
       = Inr (lit ''Unable to fetch weather for '' @ lit ''Paris'')"
    using weather_getWeather_total[of fetch_env "[]" "lit ''Paris''"] c1
    by fastforce
  from a b c a1 b2 c1 show ?thesis by (simp add: not_ok_def)
qed

end
